theory Spec2Isabelle
  imports Complex_Main
begin

section \<open>JavaScript values as the viewer reads them\<close>

text \<open>
  Every payload the viewer works on comes out of \<^verbatim>\<open>JSON.parse\<close> (a fetched
  \<^verbatim>\<open>achievements.json\<close>, \<^verbatim>\<open>game-info.json\<close>, \<^verbatim>\<open>game-data.json\<close> or a cache entry), and
  a property read may add \<^verbatim>\<open>undefined\<close>.  An object is the list of its own properties in
  enumeration order (the order \<^verbatim>\<open>for...in\<close> and \<^verbatim>\<open>Object.keys\<close> visit them), with one
  entry per key.  A number is the rational number that the double denotes; an infinity,
  which \<^verbatim>\<open>JSON.parse\<close> gives for a literal beyond the range of the doubles, is not
  represented.  The code tests numbers for truthiness, compares them with \<^verbatim>\<open>1\<close> and
  passes them on; where it turns one into a string, the functions below take the
  built-in that does it as a parameter.  Strings are Isabelle strings.

  The loader itself makes one more kind of object: \<open>JObjProto own proto\<close> has the own
  properties \<open>own\<close>, and its prototype has been replaced by a plain object with the
  properties \<open>proto\<close>.  This is what assigning an object to the key \<^verbatim>\<open>__proto__\<close> makes of a
  plain object.
\<close>

datatype jsval =
    JUndefined
  | JNull
  | JBool bool
  | JNum rat
  | JStr string
  | JArr "jsval list"
  | JObj "(string \<times> jsval) list"
  | JObjProto "(string \<times> jsval) list" "(string \<times> jsval) list"

datatype error = TypeError | SyntaxError | FetchError | FormatError

fun truthy :: "jsval \<Rightarrow> bool" where
  "truthy JUndefined = False"
| "truthy JNull = False"
| "truthy (JBool b) = b"
| "truthy (JNum n) = (n \<noteq> 0)"
| "truthy (JStr s) = (s \<noteq> [])"
| "truthy (JArr xs) = True"
| "truthy (JObj kvs) = True"
| "truthy (JObjProto own proto) = True"

text \<open>\<^verbatim>\<open>a || b\<close>: the left operand when it is truthy, the right one otherwise.\<close>

definition js_or :: "jsval \<Rightarrow> jsval \<Rightarrow> jsval" where
  "js_or a b = (if truthy a then a else b)"

fun nullish :: "jsval \<Rightarrow> bool" where
  "nullish JUndefined = True"
| "nullish JNull = True"
| "nullish v = False"

subsection \<open>Numbers as strings, strings as array indices\<close>

definition digit_char :: "nat \<Rightarrow> char" where
  "digit_char d = ''0123456789'' ! (d mod 10)"

fun nat_to_string :: "nat \<Rightarrow> string" where
  "nat_to_string n =
     (if n < 10 then [digit_char n] else nat_to_string (n div 10) @ [digit_char (n mod 10)])"

declare nat_to_string.simps [simp del]

definition is_digit :: "char \<Rightarrow> bool" where
  "is_digit c = (c \<in> set ''0123456789'')"

definition digit_val :: "char \<Rightarrow> nat" where
  "digit_val c = length (takeWhile (\<lambda>d. d \<noteq> c) ''0123456789'')"

definition digits_val :: "string \<Rightarrow> nat" where
  "digits_val s = foldl (\<lambda>acc c. 10 * acc + digit_val c) 0 s"

text \<open>
  An array index is a canonical numeric string below \<^verbatim>\<open>2^32 - 1\<close>: \<^verbatim>\<open>"0"\<close>, \<^verbatim>\<open>"17"\<close>, but
  not \<^verbatim>\<open>"017"\<close> or \<^verbatim>\<open>""\<close>.
\<close>

definition parseIndex :: "string \<Rightarrow> nat option" where
  "parseIndex s =
     (if s \<noteq> [] \<and> list_all is_digit s \<and> nat_to_string (digits_val s) = s
         \<and> digits_val s < 4294967295
      then Some (digits_val s) else None)"

text \<open>
  \<^verbatim>\<open>String(v)\<close>, which is also how a value used as a property key is coerced and what
  \<^verbatim>\<open>v.toString()\<close> gives on a value of these shapes.  How a number prints (decimal digits,
  an exponent from \<^verbatim>\<open>1e21\<close> on, the shortest digits that read back as the same double) is
  the built-in \<open>ns\<close>, a parameter.  An array joins its elements with commas, \<^verbatim>\<open>null\<close> and
  \<^verbatim>\<open>undefined\<close> elements printing as the empty string.  An object prints as
  \<^verbatim>\<open>[object Object]\<close>, unless it has a property \<^verbatim>\<open>toString\<close> of its own or from a replaced
  prototype: coming from JSON that is not a function, and the coercion throws a
  TypeError.
\<close>

fun join_comma :: "string list \<Rightarrow> string" where
  "join_comma [] = []"
| "join_comma [s] = s"
| "join_comma (s # t # ss) = s @ '','' @ join_comma (t # ss)"

fun toStr :: "(rat \<Rightarrow> string) \<Rightarrow> jsval \<Rightarrow> error + string"
  and toStr_elems :: "(rat \<Rightarrow> string) \<Rightarrow> jsval list \<Rightarrow> error + string list"
where
  "toStr ns JUndefined = Inr ''undefined''"
| "toStr ns JNull = Inr ''null''"
| "toStr ns (JBool b) = Inr (if b then ''true'' else ''false'')"
| "toStr ns (JNum n) = Inr (ns n)"
| "toStr ns (JStr s) = Inr s"
| "toStr ns (JArr xs) =
     (case toStr_elems ns xs of Inl e \<Rightarrow> Inl e | Inr ss \<Rightarrow> Inr (join_comma ss))"
| "toStr ns (JObj kvs) =
     (if ''toString'' \<in> fst ` set kvs then Inl TypeError else Inr ''[object Object]'')"
| "toStr ns (JObjProto own proto) =
     (if ''toString'' \<in> fst ` set own \<or> ''toString'' \<in> fst ` set proto then Inl TypeError
      else Inr ''[object Object]'')"
| "toStr_elems ns [] = Inr []"
| "toStr_elems ns (x # xs) =
     (case (if x = JUndefined \<or> x = JNull then Inr [] else toStr ns x) of
        Inl e \<Rightarrow> Inl e
      | Inr s \<Rightarrow> (case toStr_elems ns xs of Inl e \<Rightarrow> Inl e | Inr ss \<Rightarrow> Inr (s # ss)))"

subsection \<open>Reading properties\<close>

text \<open>
  \<^verbatim>\<open>v[k]\<close> on a value that is neither \<^verbatim>\<open>null\<close> nor \<^verbatim>\<open>undefined\<close>: an own property of an
  object, an element or the length of an array or a string, \<^verbatim>\<open>undefined\<close> otherwise.
  Behind the own properties of a \<open>JObjProto\<close> stand those of its prototype, and its
  \<^verbatim>\<open>__proto__\<close> is that prototype.  Properties inherited from the built-in prototypes are
  left out: none of the names the viewer reads is one of them.
\<close>

fun js_prop :: "jsval \<Rightarrow> string \<Rightarrow> jsval" where
  "js_prop (JObj kvs) k = (case map_of kvs k of None \<Rightarrow> JUndefined | Some v \<Rightarrow> v)"
| "js_prop (JObjProto own proto) k =
     (case map_of own k of
        Some v \<Rightarrow> v
      | None \<Rightarrow>
          if k = ''__proto__'' then JObj proto
          else (case map_of proto k of None \<Rightarrow> JUndefined | Some v \<Rightarrow> v))"
| "js_prop (JArr xs) k =
     (if k = ''length'' then JNum (of_nat (length xs))
      else case parseIndex k of
             None \<Rightarrow> JUndefined
           | Some i \<Rightarrow> if i < length xs then xs ! i else JUndefined)"
| "js_prop (JStr s) k =
     (if k = ''length'' then JNum (of_nat (length s))
      else case parseIndex k of
             None \<Rightarrow> JUndefined
           | Some i \<Rightarrow> if i < length s then JStr [s ! i] else JUndefined)"
| "js_prop v k = JUndefined"

text \<open>\<^verbatim>\<open>v.k\<close>: reading a property of \<^verbatim>\<open>null\<close> or \<^verbatim>\<open>undefined\<close> throws a TypeError.\<close>

definition js_get :: "jsval \<Rightarrow> string \<Rightarrow> error + jsval" where
  "js_get v k = (if nullish v then Inl TypeError else Inr (js_prop v k))"

text \<open>\<^verbatim>\<open>v?.k\<close>: \<^verbatim>\<open>undefined\<close> instead of the TypeError.\<close>

definition js_get_opt :: "jsval \<Rightarrow> string \<Rightarrow> jsval" where
  "js_get_opt v k = (if nullish v then JUndefined else js_prop v k)"

text \<open>
  The keys a \<^verbatim>\<open>for (let key in v)\<close> loop visits, in order: the own ones, then those of a
  replaced prototype that no own property hides.
\<close>

fun forin_keys :: "jsval \<Rightarrow> string list" where
  "forin_keys (JObj kvs) = map fst kvs"
| "forin_keys (JObjProto own proto) =
     map fst own @ filter (\<lambda>k. k \<notin> fst ` set own) (map fst proto)"
| "forin_keys (JArr xs) = map nat_to_string [0..<length xs]"
| "forin_keys (JStr s) = map nat_to_string [0..<length s]"
| "forin_keys v = []"

text \<open>\<^verbatim>\<open>Object.keys(v)\<close> on a truthy value: the own keys only.\<close>

fun own_keys :: "jsval \<Rightarrow> string list" where
  "own_keys (JObj kvs) = map fst kvs"
| "own_keys (JObjProto own proto) = map fst own"
| "own_keys (JArr xs) = map nat_to_string [0..<length xs]"
| "own_keys (JStr s) = map nat_to_string [0..<length s]"
| "own_keys v = []"

subsection \<open>The \<^verbatim>\<open>includes\<close> method\<close>

fun str_includes :: "string \<Rightarrow> string \<Rightarrow> bool" where
  "str_includes [] k = (k = [])"
| "str_includes (c # cs) k = (take (length k) (c # cs) = k \<or> str_includes cs k)"

text \<open>
  \<^verbatim>\<open>bl.includes(key)\<close> with a string key: membership in an array, a substring test on a
  string, and a TypeError on any other value (it has no callable \<^verbatim>\<open>includes\<close>).
\<close>

fun js_includes :: "jsval \<Rightarrow> string \<Rightarrow> error + bool" where
  "js_includes (JArr xs) k = Inr (JStr k \<in> set xs)"
| "js_includes (JStr s) k = Inr (str_includes s k)"
| "js_includes v k = Inl TypeError"

subsection \<open>Writing properties, \<^verbatim>\<open>Map\<close>\<close>

text \<open>
  Defining the own property \<open>k\<close> of an object, as \<^verbatim>\<open>JSON.parse\<close> does for every key and an
  assignment \<^verbatim>\<open>obj[k] = v\<close> does for every key but \<^verbatim>\<open>__proto__\<close>: an existing property keeps
  its place, a new array index goes among the indices in ascending order (they are
  enumerated first), any other new key goes last.
\<close>

fun obj_insert_index :: "nat \<Rightarrow> string \<Rightarrow> jsval \<Rightarrow> (string \<times> jsval) list \<Rightarrow> (string \<times> jsval) list" where
  "obj_insert_index i k v [] = [(k, v)]"
| "obj_insert_index i k v ((k', v') # rest) =
     (case parseIndex k' of
        None \<Rightarrow> (k, v) # (k', v') # rest
      | Some j \<Rightarrow> if i < j then (k, v) # (k', v') # rest
                  else (k', v') # obj_insert_index i k v rest)"

fun obj_replace :: "string \<Rightarrow> jsval \<Rightarrow> (string \<times> jsval) list \<Rightarrow> (string \<times> jsval) list" where
  "obj_replace k v [] = []"
| "obj_replace k v ((k', v') # rest) =
     (if k' = k then (k, v) # rest else (k', v') # obj_replace k v rest)"

definition own_set :: "(string \<times> jsval) list \<Rightarrow> string \<Rightarrow> jsval \<Rightarrow> (string \<times> jsval) list" where
  "own_set kvs k v =
     (if k \<in> fst ` set kvs then obj_replace k v kvs
      else case parseIndex k of
             None \<Rightarrow> kvs @ [(k, v)]
           | Some i \<Rightarrow> obj_insert_index i k v kvs)"

text \<open>The own properties after a sequence of such definitions, starting from \<open>acc\<close>.\<close>

definition obj_of_entries ::
  "(string \<times> jsval) list \<Rightarrow> (string \<times> jsval) list \<Rightarrow> (string \<times> jsval) list"
where
  "obj_of_entries acc es = foldl (\<lambda>obj (k, v). own_set obj k v) acc es"

text \<open>
  \<^verbatim>\<open>obj[k] = {...}\<close>, where \<open>obj\<close> began as the literal \<^verbatim>\<open>{}\<close> and the right-hand side is a
  fresh plain object with the properties \<open>fields\<close>.  The object is held as its own
  properties and the properties of its replaced prototype, if it has been replaced.
  The key \<^verbatim>\<open>__proto__\<close> reaches the setter that every such object inherits: the assigned
  object becomes the prototype and no own property is made.  Any other key defines an
  own property, also when the prototype has one of that name.
\<close>

definition obj_set ::
  "(string \<times> jsval) list \<times> (string \<times> jsval) list option \<Rightarrow> string \<Rightarrow> (string \<times> jsval) list
     \<Rightarrow> (string \<times> jsval) list \<times> (string \<times> jsval) list option"
where
  "obj_set obj k fields =
     (if k = ''__proto__'' then (fst obj, Some fields)
      else (own_set (fst obj) k (JObj fields), snd obj))"

text \<open>The value that such an object is.\<close>

definition obj_value :: "(string \<times> jsval) list \<times> (string \<times> jsval) list option \<Rightarrow> jsval" where
  "obj_value obj = (case snd obj of None \<Rightarrow> JObj (fst obj) | Some proto \<Rightarrow> JObjProto (fst obj) proto)"

text \<open>
  \<^verbatim>\<open>map.set(k, v)\<close> on a \<^verbatim>\<open>Map\<close>, held as its entries in iteration order: an existing key
  keeps its place and gets the new value, a new key is appended.
\<close>

fun js_map_set :: "'k \<Rightarrow> 'v \<Rightarrow> ('k \<times> 'v) list \<Rightarrow> ('k \<times> 'v) list" where
  "js_map_set k v [] = [(k, v)]"
| "js_map_set k v ((k', v') # rest) =
     (if k' = k then (k, v) # rest else (k', v') # js_map_set k v rest)"

fun is_array :: "jsval \<Rightarrow> bool" where
  "is_array (JArr xs) = True"
| "is_array v = False"

text \<open>\<^verbatim>\<open>x === true || x === 1\<close>\<close>

definition is_true_or_one :: "jsval \<Rightarrow> bool" where
  "is_true_or_one x = (x = JBool True \<or> x = JNum 1)"

text \<open>
  \<^verbatim>\<open>userAch && (userAch.earned === true || userAch.earned === 1)\<close> as a condition, which
  is also \<^verbatim>\<open>ownAch ? (ownAch.earned === true || ownAch.earned === 1) : false\<close>.
\<close>

definition has_earned :: "jsval \<Rightarrow> bool" where
  "has_earned userAch = (truthy userAch \<and> is_true_or_one (js_prop userAch ''earned''))"

text \<open>\<^verbatim>\<open>gameInfo?.blacklist || []\<close>\<close>

definition blacklist_of :: "jsval \<Rightarrow> jsval" where
  "blacklist_of info = js_or (js_get_opt info ''blacklist'') (JArr [])"

section \<open>The hub: \<^verbatim>\<open>loadGameData(person)\<close>\<close>

record gameCount =
  totalCount :: nat
  earnedCount :: nat
  canDeterminePerfect :: bool

text \<open>\<^verbatim>\<open>keys.filter(key => !blacklist.includes(key))\<close>; \<^verbatim>\<open>includes\<close> can throw.\<close>

fun filter_not_blacklisted :: "jsval \<Rightarrow> string list \<Rightarrow> error + string list" where
  "filter_not_blacklisted bl [] = Inr []"
| "filter_not_blacklisted bl (key # keys) =
     (case js_includes bl key of
        Inl e \<Rightarrow> Inl e
      | Inr b \<Rightarrow>
          (case filter_not_blacklisted bl keys of
             Inl e \<Rightarrow> Inl e
           | Inr ks \<Rightarrow> Inr (if b then ks else key # ks)))"

definition count_earned :: "jsval \<Rightarrow> string list \<Rightarrow> nat" where
  "count_earned gameAchievements keys =
     length (filter (\<lambda>key. has_earned (js_prop gameAchievements key)) keys)"

text \<open>The body of the loop over \<^verbatim>\<open>games\<close>, for one game \<open>g\<close>.\<close>

definition hub_game :: "jsval \<Rightarrow> error + gameCount" where
  "hub_game g =
     (case js_get g ''info'' of
        Inl e \<Rightarrow> Inl e
      | Inr info \<Rightarrow>
          (let gameInfo = js_or info g;
               gameAchievements = js_or (js_prop g ''achievements'') (JObj []);
               blacklist = blacklist_of gameInfo;
               hasFullSchema = (truthy gameInfo \<and> truthy (js_prop gameInfo ''achievements'')
                                \<and> length (own_keys (js_prop gameInfo ''achievements'')) > 0)
           in if hasFullSchema then
                (case filter_not_blacklisted blacklist (own_keys (js_prop gameInfo ''achievements'')) of
                   Inl e \<Rightarrow> Inl e
                 | Inr validSchemaKeys \<Rightarrow>
                     Inr \<lparr> totalCount = length validSchemaKeys,
                           earnedCount = count_earned gameAchievements validSchemaKeys,
                           canDeterminePerfect = True \<rparr>)
              else
                (let saveKeys = own_keys gameAchievements
                 in Inr \<lparr> totalCount = length saveKeys,
                          earnedCount = count_earned gameAchievements saveKeys,
                          canDeterminePerfect = False \<rparr>)))"

record hubStats =
  gameData :: "jsval list"
  achievements :: nat
  totalGames :: nat
  perfectGames :: nat
  totalAchievements :: nat

definition emptyStats :: hubStats where
  "emptyStats = \<lparr> gameData = [], achievements = 0, totalGames = 0, perfectGames = 0,
                  totalAchievements = 0 \<rparr>"

text \<open>
  The loop over \<^verbatim>\<open>games\<close> with its three counters \<^verbatim>\<open>earnedAchievements\<close>,
  \<^verbatim>\<open>totalAchievements\<close> and \<^verbatim>\<open>perfect\<close>.
\<close>

fun hub_loop :: "jsval list \<Rightarrow> nat \<Rightarrow> nat \<Rightarrow> nat \<Rightarrow> error + (nat \<times> nat \<times> nat)" where
  "hub_loop [] earned tot perfect = Inr (earned, tot, perfect)"
| "hub_loop (g # gs) earned tot perfect =
     (case hub_game g of
        Inl e \<Rightarrow> Inl e
      | Inr c \<Rightarrow>
          hub_loop gs (earned + earnedCount c) (tot + totalCount c)
            (if canDeterminePerfect c \<and> totalCount c > 0 \<and> earnedCount c = totalCount c
             then perfect + 1 else perfect))"

text \<open>
  \<^verbatim>\<open>loadGameData\<close> from the outcome of \<^verbatim>\<open>fetchJSON(url)\<close> (\<open>Inl\<close> when the fetch or the
  parse rejects, \<^verbatim>\<open>null\<close> when the response is not ok), giving the fields it sets on
  \<^verbatim>\<open>person\<close>.  Every failure ends in the zeroed fields; nothing is thrown.
\<close>

definition loadGameData :: "error + jsval \<Rightarrow> hubStats" where
  "loadGameData fetched =
     (case fetched of
        Inl e \<Rightarrow> emptyStats
      | Inr data \<Rightarrow>
          if \<not> truthy data then emptyStats
          else
            (case (if is_array data then Some data
                   else if truthy (js_prop data ''games'') \<and> is_array (js_prop data ''games'')
                        then Some (js_prop data ''games'') else None) of
               Some (JArr games) \<Rightarrow>
                 (case hub_loop games 0 0 0 of
                    Inl e \<Rightarrow> emptyStats
                  | Inr (earned, tot, perfect) \<Rightarrow>
                      \<lparr> gameData = games, achievements = earned,
                        totalGames = length games, perfectGames = perfect,
                        totalAchievements = tot \<rparr>)
             | _ \<Rightarrow> emptyStats))"

section \<open>Canonical records\<close>

record achievement =
  apiname :: string
  name :: jsval
  description :: jsval
  hidden :: jsval
  icon :: jsval
  icongray :: jsval
  unlocked :: jsval
  unlocktime :: jsval
  rarity :: jsval
  group :: jsval

record game =
  appId :: string
  name :: jsval
  icon :: jsval
  achievements :: "achievement list"
  usesDb :: jsval
  platform :: jsval

text \<open>\<^verbatim>\<open>gamesData\<close>, the \<^verbatim>\<open>Map\<close> from appId to canonical game.\<close>

type_synonym gamesData = "(string \<times> game) list"


section \<open>The viewer's loader: normalising one game\<close>

text \<open>
  \<^verbatim>\<open>v.earned || v.unlocked || v.achieved || false\<close> and
  \<^verbatim>\<open>v.earned_time || v.unlock_time || v.unlocktime || 0\<close>, for a \<open>v\<close> whose properties can
  be read.
\<close>

definition unlocked_chain :: "jsval \<Rightarrow> jsval" where
  "unlocked_chain v =
     js_or (js_prop v ''earned'')
       (js_or (js_prop v ''unlocked'') (js_or (js_prop v ''achieved'') (JBool False)))"

definition unlocktime_chain :: "jsval \<Rightarrow> jsval" where
  "unlocktime_chain v =
     js_or (js_prop v ''earned_time'')
       (js_or (js_prop v ''unlock_time'') (js_or (js_prop v ''unlocktime'') (JNum 0)))"

text \<open>
  The object pushed in the schema branch, for a schema entry \<open>achInfo\<close> whose properties
  can be read.
\<close>

definition schema_entry :: "string \<Rightarrow> jsval \<Rightarrow> jsval \<Rightarrow> achievement" where
  "schema_entry key achInfo userAch =
     \<lparr> apiname = key,
       name = js_or (js_prop achInfo ''name'') (JStr key),
       description = js_or (js_prop achInfo ''description'') (JStr []),
       hidden = js_or (js_prop achInfo ''hidden'') (JBool False),
       icon = js_or (js_prop achInfo ''icon'') (JStr []),
       icongray = js_or (js_prop achInfo ''icongray'') (js_or (js_prop achInfo ''icon'') (JStr [])),
       unlocked = (if truthy userAch then unlocked_chain userAch else JBool False),
       unlocktime = (if truthy userAch then unlocktime_chain userAch else JNum 0),
       rarity = js_or (js_prop achInfo ''percent'') JNull,
       group = js_or (js_prop achInfo ''group'') JNull \<rparr>"

text \<open>
  The object pushed in the other branch, for a user-state entry \<open>ach\<close> whose properties
  can be read.
\<close>

definition save_entry :: "string \<Rightarrow> jsval \<Rightarrow> achievement" where
  "save_entry key ach =
     \<lparr> apiname = key,
       name = js_or (js_prop ach ''name'') (js_or (js_prop ach ''displayName'') (JStr key)),
       description = js_or (js_prop ach ''description'') (js_or (js_prop ach ''desc'') (JStr [])),
       hidden = js_or (js_prop ach ''hidden'') (JBool False),
       icon = js_or (js_prop ach ''icon'') (JStr []),
       icongray = js_or (js_prop ach ''icongray'')
                    (js_or (js_prop ach ''icon_gray'') (js_or (js_prop ach ''icon'') (JStr []))),
       unlocked = unlocked_chain ach,
       unlocktime = unlocktime_chain ach,
       rarity = js_or (js_prop ach ''percent'') JNull,
       group = js_or (js_prop ach ''group'') JNull \<rparr>"

text \<open>
  \<^verbatim>\<open>for (let key in gameInfo.achievements)\<close>: \<open>schema\<close> is \<^verbatim>\<open>gameInfo.achievements\<close>, \<open>acc\<close>
  the \<^verbatim>\<open>achievements\<close> array pushed to.  \<^verbatim>\<open>blacklist.includes\<close> throws on a blacklist
  that is neither an array nor a string, \<^verbatim>\<open>achInfo.name\<close> on a \<^verbatim>\<open>null\<close> schema entry.
\<close>

fun schema_loop ::
  "jsval \<Rightarrow> jsval \<Rightarrow> jsval \<Rightarrow> string list \<Rightarrow> achievement list \<Rightarrow> error + achievement list"
where
  "schema_loop schema achData bl [] acc = Inr acc"
| "schema_loop schema achData bl (key # keys) acc =
     (case js_includes bl key of
        Inl e \<Rightarrow> Inl e
      | Inr True \<Rightarrow> schema_loop schema achData bl keys acc
      | Inr False \<Rightarrow>
          (let achInfo = js_prop schema key
           in case js_get achData key of
                Inl e \<Rightarrow> Inl e
              | Inr userAch \<Rightarrow>
                  if nullish achInfo then Inl TypeError
                  else schema_loop schema achData bl keys
                         (acc @ [schema_entry key achInfo userAch])))"

text \<open>\<^verbatim>\<open>for (let key in achData)\<close>; \<^verbatim>\<open>ach.name\<close> throws on a \<^verbatim>\<open>null\<close> entry.\<close>

fun save_loop ::
  "jsval \<Rightarrow> jsval \<Rightarrow> string list \<Rightarrow> achievement list \<Rightarrow> error + achievement list"
where
  "save_loop achData bl [] acc = Inr acc"
| "save_loop achData bl (key # keys) acc =
     (case js_includes bl key of
        Inl e \<Rightarrow> Inl e
      | Inr True \<Rightarrow> save_loop achData bl keys acc
      | Inr False \<Rightarrow>
          (case js_get achData key of
             Inl e \<Rightarrow> Inl e
           | Inr ach \<Rightarrow>
               if nullish ach then Inl TypeError
               else save_loop achData bl keys (acc @ [save_entry key ach])))"

text \<open>\<^verbatim>\<open>achievementsData.achievements || achievementsData\<close>\<close>

definition achData_of :: "jsval \<Rightarrow> jsval" where
  "achData_of achievementsData = js_or (js_prop achievementsData ''achievements'') achievementsData"

text \<open>\<^verbatim>\<open>gameInfo && gameInfo.achievements\<close>, the test that selects the schema branch.\<close>

definition schema_present :: "jsval \<Rightarrow> bool" where
  "schema_present gameInfo = (truthy gameInfo \<and> truthy (js_prop gameInfo ''achievements''))"

text \<open>
  \<^verbatim>\<open>processGameData\<close> up to the record it stores: the canonical game for an appId (already
  a string at both call sites), the user's achievement payload and the game info
  (\<^verbatim>\<open>null\<close> when there is none).
\<close>

definition canonicalGame :: "string \<Rightarrow> jsval \<Rightarrow> jsval \<Rightarrow> error + game" where
  "canonicalGame app_id achievementsData gameInfo =
     (let gameName = js_or (js_get_opt gameInfo ''name'') (JStr (''Game '' @ app_id));
          gameIcon = js_or (js_get_opt gameInfo ''icon'') (JStr []);
          uses = js_or (js_get_opt gameInfo ''uses_db'') (JBool False);
          plat = js_or (js_get_opt gameInfo ''platform'') JNull;
          bl = blacklist_of gameInfo
      in if nullish achievementsData then Inl TypeError
         else
           (let achData = achData_of achievementsData
            in case (if schema_present gameInfo
                     then schema_loop (js_prop gameInfo ''achievements'') achData bl
                            (forin_keys (js_prop gameInfo ''achievements'')) []
                     else save_loop achData bl (forin_keys achData) []) of
                 Inl e \<Rightarrow> Inl e
               | Inr achs \<Rightarrow>
                   Inr \<lparr> appId = app_id, name = gameName, icon = gameIcon,
                         achievements = achs, usesDb = uses, platform = plat \<rparr>))"

text \<open>
  \<^verbatim>\<open>processGameData(appId, achievementsData, gameInfo = null)\<close>: an \<^verbatim>\<open>undefined\<close> third
  argument takes the default.  \<^verbatim>\<open>gamesData.set\<close> is the last statement, so a throw leaves
  the collection as it was.
\<close>

definition processGameData :: "string \<Rightarrow> jsval \<Rightarrow> jsval \<Rightarrow> gamesData \<Rightarrow> error + gamesData" where
  "processGameData app_id achievementsData gameInfo gd =
     (case canonicalGame app_id achievementsData (if gameInfo = JUndefined then JNull else gameInfo) of
        Inl e \<Rightarrow> Inl e
      | Inr g \<Rightarrow> Inr (js_map_set app_id g gd))"

subsection \<open>Loading game by game: \<^verbatim>\<open>loadGamesFromAppIds\<close>\<close>

text \<open>
  The conversion of a legacy array (the same lines stand in \<^verbatim>\<open>loadOwnGameData\<close>):
  \<^verbatim>\<open>for (const ach of achievementsData) if (ach.apiname) converted[ach.apiname] = {...}\<close>.
\<close>

definition converted_fields :: "jsval \<Rightarrow> (string \<times> jsval) list" where
  "converted_fields ach =
     [(''earned'', JBool (js_prop ach ''achieved'' = JNum 1)),
      (''earned_time'', js_or (js_prop ach ''unlocktime'') (JNum 0))]"

fun convert_loop ::
  "(rat \<Rightarrow> string) \<Rightarrow> jsval list
     \<Rightarrow> (string \<times> jsval) list \<times> (string \<times> jsval) list option
     \<Rightarrow> error + (string \<times> jsval) list \<times> (string \<times> jsval) list option"
where
  "convert_loop ns [] converted = Inr converted"
| "convert_loop ns (ach # rest) converted =
     (case js_get ach ''apiname'' of
        Inl e \<Rightarrow> Inl e
      | Inr an \<Rightarrow>
          if truthy an
          then (case toStr ns an of
                  Inl e \<Rightarrow> Inl e
                | Inr k \<Rightarrow> convert_loop ns rest (obj_set converted k (converted_fields ach)))
          else convert_loop ns rest converted)"

definition convertLegacy :: "(rat \<Rightarrow> string) \<Rightarrow> jsval \<Rightarrow> error + jsval" where
  "convertLegacy ns achievementsData =
     (case achievementsData of
        JArr xs \<Rightarrow>
          (case convert_loop ns xs ([], None) of
             Inl e \<Rightarrow> Inl e
           | Inr converted \<Rightarrow> Inr (obj_value converted))
      | _ \<Rightarrow> Inr achievementsData)"

text \<open>
  The canonical game the loop body builds from the parsed \<^verbatim>\<open>achievements.json\<close> and
  \<^verbatim>\<open>game-info.json\<close> of one appId: the conversion, then \<^verbatim>\<open>processGameData\<close>.
\<close>

definition normalizeFetched :: "(rat \<Rightarrow> string) \<Rightarrow> string \<Rightarrow> jsval \<Rightarrow> jsval \<Rightarrow> error + game" where
  "normalizeFetched ns app_id achievementsData gameInfo =
     (case convertLegacy ns achievementsData of
        Inl e \<Rightarrow> Inl e
      | Inr converted \<Rightarrow>
          canonicalGame app_id converted (if gameInfo = JUndefined then JNull else gameInfo))"

text \<open>
  For comparison with the conversion, the keyed mapping that the specification calls
  equivalent to a legacy array, written after its words and its data model, where an
  apiname is a string: each entry with an apiname is keyed by that apiname, with
  \<^verbatim>\<open>earned\<close> set to \<^verbatim>\<open>achieved === 1\<close> and \<^verbatim>\<open>earned_time\<close> to \<^verbatim>\<open>unlocktime\<close>, or to 0 when the
  entry has no \<^verbatim>\<open>unlocktime\<close>; entries without an apiname are dropped; of two entries
  with one apiname the later one counts.
\<close>

definition spec_keyed_value :: "jsval \<Rightarrow> jsval" where
  "spec_keyed_value e =
     JObj [(''earned'', JBool (js_prop e ''achieved'' = JNum 1)),
           (''earned_time'', case js_prop e ''unlocktime'' of JUndefined \<Rightarrow> JNum 0 | t \<Rightarrow> t)]"

definition spec_keyed_entries :: "jsval list \<Rightarrow> (string \<times> jsval) list" where
  "spec_keyed_entries arr =
     concat (map (\<lambda>e. case js_prop e ''apiname'' of
                         JStr k \<Rightarrow> [(k, spec_keyed_value e)]
                       | other \<Rightarrow> []) arr)"

definition spec_keyed_mapping :: "jsval list \<Rightarrow> (string \<rightharpoonup> jsval)" where
  "spec_keyed_mapping arr = map_of (rev (spec_keyed_entries arr))"

text \<open>
  The same mapping as the object that \<^verbatim>\<open>JSON.parse\<close> makes of it, its properties defined
  in the order of the array.
\<close>

definition spec_keyed_object :: "jsval list \<Rightarrow> (string \<times> jsval) list" where
  "spec_keyed_object arr = obj_of_entries [] (spec_keyed_entries arr)"

text \<open>
  A record of a legacy array as the data model has it: a value whose properties can be
  read, with no apiname or a non-empty string other than \<^verbatim>\<open>__proto__\<close>, and with no
  \<^verbatim>\<open>unlocktime\<close> or a number.
\<close>

definition legacy_record :: "jsval \<Rightarrow> bool" where
  "legacy_record e =
     (\<not> nullish e
      \<and> (case js_prop e ''apiname'' of
            JUndefined \<Rightarrow> True
          | JStr k \<Rightarrow> k \<noteq> [] \<and> k \<noteq> ''__proto__''
          | other \<Rightarrow> False)
      \<and> (case js_prop e ''unlocktime'' of
            JUndefined \<Rightarrow> True
          | JNum t \<Rightarrow> True
          | other \<Rightarrow> False))"

text \<open>
  The first truthy value of a list, if there is one: how the specification describes the
  alias chains (\<^verbatim>\<open>earned\<close>, then \<^verbatim>\<open>unlocked\<close>, then \<^verbatim>\<open>achieved\<close>; first truthy wins).
\<close>

fun first_truthy :: "jsval list \<Rightarrow> jsval option" where
  "first_truthy [] = None"
| "first_truthy (v # vs) = (if truthy v then Some v else first_truthy vs)"

text \<open>
  One appId of \<^verbatim>\<open>loadGamesFromAppIds\<close> comes with what its fetches gave: the parsed
  achievements file (\<open>None\<close> when neither file could be fetched and parsed, so the game
  is skipped) and the parsed game info (\<^verbatim>\<open>null\<close> when there is none).  The \<^verbatim>\<open>catch\<close> of
  the loop body logs an error and goes on with the next appId.
\<close>

fun loadGamesFromAppIds ::
  "(rat \<Rightarrow> string) \<Rightarrow> (string \<times> jsval option \<times> jsval) list \<Rightarrow> gamesData \<Rightarrow> gamesData"
where
  "loadGamesFromAppIds ns [] gd = gd"
| "loadGamesFromAppIds ns ((app_id, None, gameInfo) # rest) gd = loadGamesFromAppIds ns rest gd"
| "loadGamesFromAppIds ns ((app_id, Some achievementsData, gameInfo) # rest) gd =
     (case convertLegacy ns achievementsData of
        Inl e \<Rightarrow> loadGamesFromAppIds ns rest gd
      | Inr converted \<Rightarrow>
          (case processGameData app_id converted gameInfo gd of
             Inl e \<Rightarrow> loadGamesFromAppIds ns rest gd
           | Inr gd' \<Rightarrow> loadGamesFromAppIds ns rest gd'))"

subsection \<open>Loading from the combined file: \<^verbatim>\<open>loadGamesFromData\<close>\<close>

text \<open>
  The loop over the games list of \<^verbatim>\<open>game-data.json\<close>.  Nothing catches here: the first
  throw ends the loop, the games stored before it stay in the collection.
\<close>

fun loadGamesFromData ::
  "(rat \<Rightarrow> string) \<Rightarrow> jsval list \<Rightarrow> gamesData \<Rightarrow> error option \<times> gamesData"
where
  "loadGamesFromData ns [] gd = (None, gd)"
| "loadGamesFromData ns (game_data # rest) gd =
     (case js_get game_data ''appid'' of
        Inl e \<Rightarrow> (Some e, gd)
      | Inr appid \<Rightarrow>
          (case toStr ns appid of
             Inl e \<Rightarrow> (Some e, gd)
           | Inr app_id \<Rightarrow>
               (case processGameData app_id (js_prop game_data ''achievements'')
                       (js_prop game_data ''info'') gd of
                  Inl e \<Rightarrow> (Some e, gd)
                | Inr gd' \<Rightarrow> loadGamesFromData ns rest gd')))"

section \<open>The viewer's loader: \<^verbatim>\<open>game-data.json\<close> and its cache\<close>

text \<open>
  What the loader gets from outside: the response to the range request and to the full
  request (\<open>None\<close> when \<^verbatim>\<open>fetch\<close> rejects; a response whose body cannot be read or parsed
  is a body \<open>parse\<close> rejects), the clock, whether each of the two \<^verbatim>\<open>setItem\<close> calls
  succeeds (the other outcome is the quota error), and the built-ins \<^verbatim>\<open>JSON.parse\<close>
  (\<open>None\<close> for a SyntaxError), \<^verbatim>\<open>JSON.stringify\<close> and the printing of a number.
\<close>

record response =
  status :: nat
  body :: string

definition ok :: "response \<Rightarrow> bool" where
  "ok r = (200 \<le> status r \<and> status r \<le> 299)"

record world =
  partialResponse :: "response option"
  dataResponse :: "response option"
  now :: int
  timestampWriteOk :: bool
  dataWriteOk :: bool
  parse :: "string \<Rightarrow> jsval option"
  stringify :: "jsval \<Rightarrow> string"
  numberToString :: "rat \<Rightarrow> string"

text \<open>
  The two \<^verbatim>\<open>localStorage\<close> entries of the current user: \<^verbatim>\<open>getItem\<close> gives \<^verbatim>\<open>null\<close>
  (\<open>None\<close>) or a string.
\<close>

record storage =
  cachedTimestamp :: "string option"
  cachedGames :: "string option"

datatype request = RangeRequest | FullRequest

record loaded =
  result :: "error + jsval"
  store :: storage
  requests :: "request list"

definition CACHE_MAX_AGE :: int where
  "CACHE_MAX_AGE = 60 * 60 * 1000"

text \<open>A \<^verbatim>\<open>getItem\<close> result used as a condition: \<^verbatim>\<open>null\<close> and the empty string are falsy.\<close>

fun present :: "string option \<Rightarrow> bool" where
  "present None = False"
| "present (Some s) = (s \<noteq> [])"

text \<open>
  \<^verbatim>\<open>\s\<close> and the white space \<^verbatim>\<open>parseInt\<close> skips, among the characters of an Isabelle
  string: tab, line feed, vertical tab, form feed, carriage return, space, no-break space.
\<close>

definition is_space :: "char \<Rightarrow> bool" where
  "is_space c = (of_char c \<in> {9, 10, 11, 12, 13, 32, 160 :: nat})"

text \<open>
  \<^verbatim>\<open>text.match(/"last_updated":\s*(\d+)/)\<close>, giving the group \<^verbatim>\<open>match[1]\<close> of the leftmost
  match.  At one position the literal must stand there, followed by any white space and
  at least one digit; the group is the whole run of digits.
\<close>

definition last_updated_literal :: string where
  \<open>last_updated_literal = ''"last_updated":''\<close>

definition match_here :: "string \<Rightarrow> string option" where
  "match_here s =
     (if take (length last_updated_literal) s = last_updated_literal
      then (let ds = takeWhile is_digit
                       (dropWhile is_space (drop (length last_updated_literal) s))
            in if ds = [] then None else Some ds)
      else None)"

fun match_last_updated :: "string \<Rightarrow> string option" where
  "match_last_updated [] = None"
| "match_last_updated (c # cs) =
     (case match_here (c # cs) of
        Some ds \<Rightarrow> Some ds
      | None \<Rightarrow> match_last_updated cs)"

text \<open>
  \<^verbatim>\<open>parseInt(s)\<close> without a radix: leading white space, a sign, then decimal digits, or
  hexadecimal ones after \<^verbatim>\<open>0x\<close>; \<open>None\<close> is \<^verbatim>\<open>NaN\<close>.
\<close>

definition hex_digit_val :: "char \<Rightarrow> nat option" where
  "hex_digit_val c =
     (if c \<in> set ''0123456789'' then Some (digit_val c)
      else if c \<in> set ''abcdef'' then Some (10 + length (takeWhile (\<lambda>d. d \<noteq> c) ''abcdef''))
      else if c \<in> set ''ABCDEF'' then Some (10 + length (takeWhile (\<lambda>d. d \<noteq> c) ''ABCDEF''))
      else None)"

definition hex_val :: "string \<Rightarrow> nat" where
  "hex_val s = foldl (\<lambda>acc c. 16 * acc + (case hex_digit_val c of Some d \<Rightarrow> d | None \<Rightarrow> 0)) 0 s"

definition parseInt :: "string \<Rightarrow> int option" where
  "parseInt s =
     (let t = dropWhile is_space s;
          neg = (take 1 t = ''-'');
          u = (if take 1 t = ''-'' \<or> take 1 t = ''+'' then drop 1 t else t);
          sgn = (if neg then - 1 else 1)
      in if take 2 u = ''0x'' \<or> take 2 u = ''0X''
         then (let h = takeWhile (\<lambda>c. hex_digit_val c \<noteq> None) (drop 2 u)
               in if h = [] then None else Some (sgn * int (hex_val h)))
         else (let d = takeWhile is_digit u
               in if d = [] then None else Some (sgn * int (digits_val d))))"

text \<open>
  Step 1, the smart check, with its own \<^verbatim>\<open>try\<close>: either the function returns the parsed
  cache entry, or it goes on with \<^verbatim>\<open>data\<close> set (the server ignored the range, answered
  200 and the body parsed; \<^verbatim>\<open>needsFullFetch\<close> is then false) or not set.  A throw inside,
  also the SyntaxError of \<^verbatim>\<open>JSON.parse(cachedGames)\<close>, is caught and leaves \<^verbatim>\<open>data\<close> unset.
\<close>

datatype smart = Cached jsval | Proceed "jsval option"

definition smart_check :: "world \<Rightarrow> storage \<Rightarrow> smart" where
  "smart_check w st =
     (case partialResponse w of
        None \<Rightarrow> Proceed None
      | Some r \<Rightarrow>
          if status r = 206 then
            (case match_last_updated (body r) of
               None \<Rightarrow> Proceed None
             | Some serverTimestamp \<Rightarrow>
                 if present (cachedTimestamp st) \<and> present (cachedGames st)
                    \<and> Some serverTimestamp = cachedTimestamp st
                 then (case cachedGames st of
                         None \<Rightarrow> Proceed None
                       | Some cg \<Rightarrow>
                           (case parse w cg of
                              None \<Rightarrow> Proceed None
                            | Some v \<Rightarrow> Cached v))
                 else Proceed None)
          else if status r = 200 then
            (case parse w (body r) of
               None \<Rightarrow> Proceed None
             | Some d \<Rightarrow> Proceed (Some d))
          else Proceed None)"

text \<open>Step 2, the full fetch.\<close>

definition full_fetch :: "world \<Rightarrow> error + jsval" where
  "full_fetch w =
     (case dataResponse w of
        None \<Rightarrow> Inl FetchError
      | Some r \<Rightarrow>
          if \<not> ok r then Inl FetchError
          else (case parse w (body r) of
                  None \<Rightarrow> Inl SyntaxError
                | Some d \<Rightarrow> Inr d))"

text \<open>
  Whether converting a value to a primitive throws, as the product in
  \<^verbatim>\<open>new Date(lastUpdated * 1000)\<close> does with an object or an array: an object needs its
  \<^verbatim>\<open>toString\<close> to be the inherited function, an array converts its elements.
\<close>

fun throws_on_coercion :: "jsval \<Rightarrow> bool" where
  "throws_on_coercion (JObj kvs) = (''toString'' \<in> fst ` set kvs)"
| "throws_on_coercion (JObjProto own proto) =
     (''toString'' \<in> fst ` set own \<or> ''toString'' \<in> fst ` set proto)"
| "throws_on_coercion (JArr xs) = (\<exists>x \<in> set xs. throws_on_coercion x)"
| "throws_on_coercion v = False"

text \<open>
  The two wire shapes: \<open>(games, lastUpdated, isNewFormat)\<close>, or the throw of
  \<^verbatim>\<open>'Invalid game-data.json format'\<close> (and the TypeError of \<^verbatim>\<open>data.games\<close> on \<^verbatim>\<open>null\<close>).
  In the branch of the current format a truthy \<^verbatim>\<open>lastUpdated\<close> is turned into a date for
  the log; only the product can throw there.
\<close>

definition wire_shape :: "jsval \<Rightarrow> error + (jsval \<times> jsval \<times> bool)" where
  "wire_shape data =
     (if is_array data then Inr (data, JNull, False)
      else (case js_get data ''games'' of
              Inl e \<Rightarrow> Inl e
            | Inr g \<Rightarrow>
                if truthy g \<and> is_array g
                then (let lastUpdated = js_prop data ''last_updated''
                      in if truthy lastUpdated \<and> throws_on_coercion lastUpdated
                         then Inl TypeError
                         else Inr (g, lastUpdated, True))
                else Inl FormatError))"

text \<open>
  The cache update, with its own \<^verbatim>\<open>try\<close>: the first \<^verbatim>\<open>setItem\<close> that throws ends it, what
  was written before stays.
\<close>

definition update_cache :: "world \<Rightarrow> storage \<Rightarrow> jsval \<Rightarrow> jsval \<Rightarrow> storage" where
  "update_cache w st games lastUpdated =
     (case toStr (numberToString w) lastUpdated of
        Inl e \<Rightarrow> st
      | Inr ts \<Rightarrow>
          if \<not> timestampWriteOk w then st
          else if \<not> dataWriteOk w then st\<lparr> cachedTimestamp := Some ts \<rparr>
          else st\<lparr> cachedTimestamp := Some ts, cachedGames := Some (stringify w games) \<rparr>)"

text \<open>
  The outer \<^verbatim>\<open>catch\<close>: the cache entry is returned when both entries are there and the
  cached timestamp is less than an hour old; otherwise the error is thrown again.
\<close>

definition cache_fresh :: "world \<Rightarrow> string \<Rightarrow> bool" where
  "cache_fresh w ts =
     (case parseInt ts of
        None \<Rightarrow> False
      | Some t \<Rightarrow> (now w div 1000 - t) * 1000 < CACHE_MAX_AGE)"

definition fallback :: "world \<Rightarrow> storage \<Rightarrow> error \<Rightarrow> error + jsval" where
  "fallback w st err =
     (case (cachedGames st, cachedTimestamp st) of
        (Some cg, Some ts) \<Rightarrow>
          if cg \<noteq> [] \<and> ts \<noteq> [] \<and> cache_fresh w ts
          then (case parse w cg of None \<Rightarrow> Inl SyntaxError | Some v \<Rightarrow> Inr v)
          else Inl err
      | _ \<Rightarrow> Inl err)"

text \<open>
  \<^verbatim>\<open>if (needsFullFetch) { ... }\<close>: the payload is the one the smart check got, or the
  one of the full fetch.
\<close>

definition payload_of :: "world \<Rightarrow> jsval option \<Rightarrow> error + jsval" where
  "payload_of w d = (case d of Some data \<Rightarrow> Inr data | None \<Rightarrow> full_fetch w)"

definition loadGameDataWithCache :: "world \<Rightarrow> storage \<Rightarrow> loaded" where
  "loadGameDataWithCache w st =
     (case smart_check w st of
        Cached v \<Rightarrow> \<lparr> result = Inr v, store = st, requests = [RangeRequest] \<rparr>
      | Proceed d \<Rightarrow>
          (let reqs = (case d of Some data \<Rightarrow> [RangeRequest]
                                | None \<Rightarrow> [RangeRequest, FullRequest])
           in case (case payload_of w d of Inl e \<Rightarrow> Inl e | Inr data \<Rightarrow> wire_shape data) of
                Inl e \<Rightarrow> \<lparr> result = fallback w st e, store = st, requests = reqs \<rparr>
              | Inr (games, lastUpdated, isNewFormat) \<Rightarrow>
                  \<lparr> result = Inr games,
                    store = (if isNewFormat \<and> truthy lastUpdated
                             then update_cache w st games lastUpdated else st),
                    requests = reqs \<rparr>))"

text \<open>
  For the statements about the loader: a malformed payload, in the specification's words
  one that is neither a bare array nor an object with a games array; and a cache that
  the outer \<^verbatim>\<open>catch\<close> can fall back on.
\<close>

definition malformed :: "jsval \<Rightarrow> bool" where
  "malformed data =
     (\<not> is_array data \<and> \<not> (truthy (js_prop data ''games'') \<and> is_array (js_prop data ''games'')))"

definition cache_usable :: "world \<Rightarrow> storage \<Rightarrow> bool" where
  "cache_usable w st =
     (case (cachedGames st, cachedTimestamp st) of
        (Some cg, Some ts) \<Rightarrow> cg \<noteq> [] \<and> ts \<noteq> [] \<and> cache_fresh w ts
      | _ \<Rightarrow> False)"

subsection \<open>The end of \<^verbatim>\<open>init\<close>\<close>

text \<open>
  What the loop of \<^verbatim>\<open>loadGamesFromData\<close> reads from its argument, \<^verbatim>\<open>gameDataList[i]\<close> for
  \<^verbatim>\<open>i\<close> below \<^verbatim>\<open>gameDataList.length\<close>.  The loader returns an array, or whatever the cache
  entry parses to: for the latter case the reading of the other shapes is written out.
  An object is read at the indices below its \<^verbatim>\<open>length\<close>; the loop throws at the first
  index the object lacks, so no index beyond the number of its properties is reached.
  An object whose \<^verbatim>\<open>length\<close> is itself a string, an array or an object would need the
  number that JavaScript coerces it to and is left outside the model (\<open>Unmodelled\<close>).
\<close>

datatype outcome = Thrown error | Unmodelled | Done

definition array_like :: "jsval \<Rightarrow> outcome + jsval list" where
  "array_like v =
     (case js_prop v ''length'' of
        JNum n \<Rightarrow>
          Inr (map (\<lambda>i. js_prop v (nat_to_string i))
                 [0..<min (nat \<lceil>n\<rceil>) (Suc (length (forin_keys v)))])
      | JBool b \<Rightarrow> Inr (if b then [js_prop v ''0''] else [])
      | JUndefined \<Rightarrow> Inr []
      | JNull \<Rightarrow> Inr []
      | other \<Rightarrow> Inl Unmodelled)"

fun game_list :: "jsval \<Rightarrow> outcome + jsval list" where
  "game_list (JArr xs) = Inr xs"
| "game_list JUndefined = Inl (Thrown TypeError)"
| "game_list JNull = Inl (Thrown TypeError)"
| "game_list (JBool b) = Inr []"
| "game_list (JNum n) = Inr []"
| "game_list (JStr s) = Inr (map (\<lambda>c. JStr [c]) s)"
| "game_list (JObj kvs) = array_like (JObj kvs)"
| "game_list (JObjProto own proto) = array_like (JObjProto own proto)"

text \<open>
  The last two statements of the \<^verbatim>\<open>try\<close> block of \<^verbatim>\<open>init\<close>, reached when the folder scan
  found nothing, and its \<^verbatim>\<open>catch\<close>, which shows the error panel:
  \<^verbatim>\<open>const gameData = await loadGameDataWithCache(); await loadGamesFromData(gameData);\<close>
\<close>

definition init_from_file :: "world \<Rightarrow> storage \<Rightarrow> gamesData \<Rightarrow> outcome \<times> gamesData \<times> loaded" where
  "init_from_file w st gd =
     (let l = loadGameDataWithCache w st
      in case result l of
           Inl e \<Rightarrow> (Thrown e, gd, l)
         | Inr games \<Rightarrow>
             (case game_list games of
                Inl out \<Rightarrow> (out, gd, l)
              | Inr gs \<Rightarrow>
                  (case loadGamesFromData (numberToString w) gs gd of
                     (Some e, gd') \<Rightarrow> (Thrown e, gd', l)
                   | (None, gd') \<Rightarrow> (Done, gd', l))))"

section \<open>GameCompare.js\<close>

text \<open>What \<^verbatim>\<open>loadOwnGameData\<close> hands to the comparison (\<^verbatim>\<open>null\<close> is \<open>None\<close>).\<close>

record ownGameData =
  achievementsData :: jsval
  gameInfo :: jsval
  blacklist :: jsval
  username :: string

text \<open>
  A comparison record is \<^verbatim>\<open>{...achievement, status, yourUnlockTime, theirUnlockTime}\<close>: the
  ten fields of the canonical achievement and three more.
\<close>

record comparisonRecord = achievement +
  status :: string
  yourUnlockTime :: jsval
  theirUnlockTime :: jsval

record comparisonResult =
  hasData :: bool
  comparison :: "comparisonRecord list"

definition status_of :: "bool \<Rightarrow> bool \<Rightarrow> string" where
  "status_of theyHave youHave =
     (if theyHave \<and> youHave then ''both-unlocked''
      else if theyHave \<and> \<not> youHave then ''they-only''
      else if \<not> theyHave \<and> youHave then ''you-only''
      else ''both-locked'')"

text \<open>
  \<^verbatim>\<open>ownAch?.earned_time || ownAch?.unlock_time || ownAch?.unlocktime || 0\<close>
\<close>

definition yourUnlockTime_of :: "jsval \<Rightarrow> jsval" where
  "yourUnlockTime_of ownAch =
     js_or (js_get_opt ownAch ''earned_time'')
       (js_or (js_get_opt ownAch ''unlock_time'')
         (js_or (js_get_opt ownAch ''unlocktime'') (JNum 0)))"

text \<open>
  The record pushed for one achievement of the reference game: \<open>theyHave\<close> is
  \<^verbatim>\<open>achievement.unlocked === true || achievement.unlocked === 1\<close>, \<open>youHave\<close> is
  \<^verbatim>\<open>ownAch ? (ownAch.earned === true || ownAch.earned === 1) : false\<close>.
\<close>

definition comparison_entry :: "achievement \<Rightarrow> jsval \<Rightarrow> comparisonRecord" where
  "comparison_entry a ownAch =
     (let theyHave = is_true_or_one (unlocked a);
          youHave = has_earned ownAch
      in \<lparr> apiname = apiname a, name = achievement.name a, description = description a,
           hidden = hidden a, icon = achievement.icon a, icongray = icongray a,
           unlocked = unlocked a, unlocktime = unlocktime a, rarity = rarity a,
           group = group a,
           status = status_of theyHave youHave,
           yourUnlockTime = yourUnlockTime_of ownAch,
           theirUnlockTime = js_or (unlocktime a) (JNum 0) \<rparr>)"

text \<open>
  The loop of \<^verbatim>\<open>compareAchievements\<close> over \<^verbatim>\<open>theirGame.achievements\<close>; \<open>acc\<close> is the
  \<^verbatim>\<open>comparison\<close> array being pushed to.  \<^verbatim>\<open>ownBlacklist.includes\<close> and
  \<^verbatim>\<open>ownAchievements[apiName]\<close> can throw.
\<close>

fun compare_loop ::
  "jsval \<Rightarrow> jsval \<Rightarrow> achievement list \<Rightarrow> comparisonRecord list \<Rightarrow> error + comparisonRecord list"
where
  "compare_loop ownAchievements ownBlacklist [] acc = Inr acc"
| "compare_loop ownAchievements ownBlacklist (a # rest) acc =
     (case js_includes ownBlacklist (apiname a) of
        Inl e \<Rightarrow> Inl e
      | Inr True \<Rightarrow> compare_loop ownAchievements ownBlacklist rest acc
      | Inr False \<Rightarrow>
          (case js_get ownAchievements (apiname a) of
             Inl e \<Rightarrow> Inl e
           | Inr ownAch \<Rightarrow>
               compare_loop ownAchievements ownBlacklist rest
                 (acc @ [comparison_entry a ownAch])))"

text \<open>\<^verbatim>\<open>compareAchievements(theirGame, ownData)\<close>\<close>

definition compareAchievements :: "game \<Rightarrow> ownGameData option \<Rightarrow> error + comparisonResult" where
  "compareAchievements theirGame ownData =
     (case ownData of
        None \<Rightarrow> Inr \<lparr> hasData = False, comparison = [] \<rparr>
      | Some od \<Rightarrow>
          (case compare_loop (achievementsData od) (blacklist od) (achievements theirGame) [] of
             Inl e \<Rightarrow> Inl e
           | Inr cs \<Rightarrow> Inr \<lparr> hasData = True, comparison = cs \<rparr>))"

record comparisonStats =
  bothUnlocked :: nat
  youOnly :: nat
  theyOnly :: nat
  bothLocked :: nat
  yourTotal :: nat
  theirTotal :: nat
  total :: nat

definition getComparisonStats :: "comparisonRecord list \<Rightarrow> comparisonStats" where
  "getComparisonStats cmp =
     (let bu = length (filter (\<lambda>a. status a = ''both-unlocked'') cmp);
          yo = length (filter (\<lambda>a. status a = ''you-only'') cmp);
          tho = length (filter (\<lambda>a. status a = ''they-only'') cmp);
          lk = length (filter (\<lambda>a. status a = ''both-locked'') cmp)
      in \<lparr> bothUnlocked = bu, youOnly = yo, theyOnly = tho, bothLocked = lk,
           yourTotal = bu + yo, theirTotal = bu + tho, total = length cmp \<rparr>)"

section \<open>Properties of the games collection\<close>

lemma js_map_set_present:
  assumes "k \<in> fst ` set m"
  shows "\<exists>i < length m. fst (m ! i) = k \<and> (\<forall>j < i. fst (m ! j) \<noteq> k)
           \<and> js_map_set k v m = m[i := (k, v)]"
  using assms
proof (induction m)
  case Nil
  then show ?case by simp
next
  case (Cons p m)
  obtain k' v' where p: "p = (k', v')" by (cases p)
  show ?case
  proof (cases "k' = k")
    case True
    have "0 < length (p # m) \<and> fst ((p # m) ! 0) = k \<and> (\<forall>j < 0. fst ((p # m) ! j) \<noteq> k)
            \<and> js_map_set k v (p # m) = (p # m)[0 := (k, v)]"
      using True p by simp
    then show ?thesis by blast
  next
    case False
    with Cons.prems p have "k \<in> fst ` set m" by auto
    from Cons.IH [OF this] obtain i where i: "i < length m" "fst (m ! i) = k"
      "\<forall>j < i. fst (m ! j) \<noteq> k" "js_map_set k v m = m[i := (k, v)]" by blast
    have "Suc i < length (p # m) \<and> fst ((p # m) ! Suc i) = k
            \<and> (\<forall>j < Suc i. fst ((p # m) ! j) \<noteq> k)
            \<and> js_map_set k v (p # m) = (p # m)[Suc i := (k, v)]"
      using i False p by (auto simp: less_Suc_eq_0_disj)
    then show ?thesis by blast
  qed
qed

lemma js_map_set_keys:
  "k \<in> fst ` set m \<Longrightarrow> map fst (js_map_set k v m) = map fst m"
  by (induction m) force+

lemma js_map_set_absent:
  "k \<notin> fst ` set m \<Longrightarrow> js_map_set k v m = m @ [(k, v)]"
  by (induction m) auto

lemma js_map_set_distinct:
  "distinct (map fst m) \<Longrightarrow> distinct (map fst (js_map_set k v m))"
proof (cases "k \<in> fst ` set m")
  case True
  assume "distinct (map fst m)"
  with js_map_set_keys [OF True] show ?thesis by simp
next
  case False
  assume "distinct (map fst m)"
  with False show ?thesis by (simp add: js_map_set_absent)
qed

lemma js_map_set_lookup:
  "map_of (js_map_set k v m) = (map_of m)(k \<mapsto> v)"
  by (induction m) (auto simp: fun_eq_iff)

text \<open>
  Claim C10.  When \<^verbatim>\<open>processGameData\<close> succeeds for an appId that is already a key of
  \<^verbatim>\<open>gamesData\<close>, the new canonical game takes the place of the old one at the same
  position of the iteration order, the order of the keys is what it was, and every other
  entry is unchanged.
\<close>

theorem processGameData_overwrite_in_place:
  assumes "app_id \<in> fst ` set gd"
    and "processGameData app_id ad info gd = Inr gd'"
  shows "\<exists>g i. canonicalGame app_id ad (if info = JUndefined then JNull else info) = Inr g
           \<and> i < length gd \<and> fst (gd ! i) = app_id
           \<and> gd' = gd[i := (app_id, g)]
           \<and> map fst gd' = map fst gd
           \<and> (\<forall>j < length gd. j \<noteq> i \<longrightarrow> gd' ! j = gd ! j)"
proof -
  from assms(2) obtain g where
    g: "canonicalGame app_id ad (if info = JUndefined then JNull else info) = Inr g"
    and gd': "gd' = js_map_set app_id g gd"
    by (auto simp: processGameData_def split: sum.splits)
  from js_map_set_present [OF assms(1), of g] obtain i where
    i: "i < length gd" "fst (gd ! i) = app_id" "js_map_set app_id g gd = gd[i := (app_id, g)]"
    by blast
  have "map fst gd' = map fst gd" using gd' js_map_set_keys [OF assms(1)] by simp
  moreover have "\<forall>j < length gd. j \<noteq> i \<longrightarrow> gd' ! j = gd ! j"
    using gd' i(3) by simp
  ultimately show ?thesis using g i gd' by auto
qed


text \<open>The definitions to unfold when a concrete game is normalised.\<close>

lemmas js_eval =
  canonicalGame_def processGameData_def js_or_def js_get_def js_get_opt_def achData_of_def
  schema_present_def save_entry_def schema_entry_def unlocked_chain_def unlocktime_chain_def
  blacklist_of_def

theorem processGameData_overwrite_in_place_witness:
  "''10'' \<in> fst ` set [(''10'', \<lparr> appId = ''10'', name = JStr ''Game 10'', icon = JStr [],
                                   achievements = [], usesDb = JBool False, platform = JNull \<rparr>),
                         (''20'', \<lparr> appId = ''20'', name = JStr ''Game 20'', icon = JStr [],
                                   achievements = [], usesDb = JBool False, platform = JNull \<rparr>)]
   \<and> processGameData ''10'' (JObj [(''A'', JObj [(''earned'', JBool True)])]) JNull
        [(''10'', \<lparr> appId = ''10'', name = JStr ''Game 10'', icon = JStr [],
                   achievements = [], usesDb = JBool False, platform = JNull \<rparr>),
         (''20'', \<lparr> appId = ''20'', name = JStr ''Game 20'', icon = JStr [],
                   achievements = [], usesDb = JBool False, platform = JNull \<rparr>)]
     = Inr [(''10'', \<lparr> appId = ''10'', name = JStr ''Game 10'', icon = JStr [],
                   achievements = [\<lparr> apiname = ''A'', name = JStr ''A'', description = JStr [],
                         hidden = JBool False, icon = JStr [], icongray = JStr [],
                         unlocked = JBool True, unlocktime = JNum 0, rarity = JNull,
                         group = JNull \<rparr>], usesDb = JBool False, platform = JNull \<rparr>),
            (''20'', \<lparr> appId = ''20'', name = JStr ''Game 20'', icon = JStr [],
                   achievements = [], usesDb = JBool False, platform = JNull \<rparr>)]
   \<and> map fst [(''10'', \<lparr> appId = ''10'', name = JStr ''Game 10'', icon = JStr [],
                   achievements = [\<lparr> apiname = ''A'', name = JStr ''A'', description = JStr [],
                         hidden = JBool False, icon = JStr [], icongray = JStr [],
                         unlocked = JBool True, unlocktime = JNum 0, rarity = JNull,
                         group = JNull \<rparr>], usesDb = JBool False, platform = JNull \<rparr>),
            (''20'', \<lparr> appId = ''20'', name = JStr ''Game 20'', icon = JStr [],
                   achievements = [], usesDb = JBool False, platform = JNull \<rparr>)]
     = [''10'', ''20'']"
proof -
  let ?g1 = "\<lparr> appId = ''10'', name = JStr ''Game 10'', icon = JStr [],
                 achievements = [], usesDb = JBool False, platform = JNull \<rparr>"
  let ?g2 = "\<lparr> appId = ''20'', name = JStr ''Game 20'', icon = JStr [],
                 achievements = [], usesDb = JBool False, platform = JNull \<rparr>"
  let ?g1' = "\<lparr> appId = ''10'', name = JStr ''Game 10'', icon = JStr [],
                   achievements = [\<lparr> apiname = ''A'', name = JStr ''A'', description = JStr [],
                         hidden = JBool False, icon = JStr [], icongray = JStr [],
                         unlocked = JBool True, unlocktime = JNum 0, rarity = JNull,
                         group = JNull \<rparr>], usesDb = JBool False, platform = JNull \<rparr>"
  have mem: "''10'' \<in> fst ` set [(''10'', ?g1), (''20'', ?g2)]" by simp
  have run: "processGameData ''10'' (JObj [(''A'', JObj [(''earned'', JBool True)])]) JNull
               [(''10'', ?g1), (''20'', ?g2)] = Inr [(''10'', ?g1'), (''20'', ?g2)]"
    by (simp add: js_eval)
  from processGameData_overwrite_in_place [OF mem run] mem run show ?thesis by simp
qed

section \<open>Properties of the normaliser\<close>

text \<open>
  Every achievement of a finished list was pushed by the loop body: for a key that the
  loop visited and the blacklist does not include, from the entry read under that key.
\<close>

lemma save_loop_entries:
  assumes "save_loop achData bl keys acc = Inr achs"
    and "set keys \<subseteq> K"
    and "\<forall>a \<in> set acc. \<exists>key ach. key \<in> K \<and> js_includes bl key = Inr False
            \<and> js_get achData key = Inr ach \<and> \<not> nullish ach \<and> a = save_entry key ach"
  shows "\<forall>a \<in> set achs. \<exists>key ach. key \<in> K \<and> js_includes bl key = Inr False
            \<and> js_get achData key = Inr ach \<and> \<not> nullish ach \<and> a = save_entry key ach"
  using assms
proof (induction keys arbitrary: acc)
  case Nil
  then show ?case by simp
next
  case (Cons key keys)
  from Cons.prems(2) have sub: "set keys \<subseteq> K" and kK: "key \<in> K" by auto
  show ?case
  proof (cases "js_includes bl key")
    case (Inl e)
    with Cons.prems(1) show ?thesis by simp
  next
    case (Inr b)
    show ?thesis
    proof (cases b)
      case True
      with Inr Cons.prems(1) have "save_loop achData bl keys acc = Inr achs" by simp
      from Cons.IH [OF this sub Cons.prems(3)] show ?thesis .
    next
      case False
      show ?thesis
      proof (cases "js_get achData key")
        case (Inl e)
        with Inr False Cons.prems(1) show ?thesis by simp
      next
        case got: (Inr ach)
        show ?thesis
        proof (cases "nullish ach")
          case True
          with Inr False got Cons.prems(1) show ?thesis by simp
        next
          case nn: False
          with Inr False got Cons.prems(1)
          have run: "save_loop achData bl keys (acc @ [save_entry key ach]) = Inr achs" by simp
          have "\<forall>a \<in> set (acc @ [save_entry key ach]). \<exists>key ach. key \<in> K
                  \<and> js_includes bl key = Inr False
                  \<and> js_get achData key = Inr ach \<and> \<not> nullish ach \<and> a = save_entry key ach"
            using Cons.prems(3) Inr False got nn kK by auto
          from Cons.IH [OF run sub this] show ?thesis .
        qed
      qed
    qed
  qed
qed

lemma schema_loop_entries:
  assumes "schema_loop schema achData bl keys acc = Inr achs"
    and "set keys \<subseteq> K"
    and "\<forall>a \<in> set acc. \<exists>key userAch. key \<in> K \<and> js_includes bl key = Inr False
            \<and> js_get achData key = Inr userAch \<and> \<not> nullish (js_prop schema key)
            \<and> a = schema_entry key (js_prop schema key) userAch"
  shows "\<forall>a \<in> set achs. \<exists>key userAch. key \<in> K \<and> js_includes bl key = Inr False
            \<and> js_get achData key = Inr userAch \<and> \<not> nullish (js_prop schema key)
            \<and> a = schema_entry key (js_prop schema key) userAch"
  using assms
proof (induction keys arbitrary: acc)
  case Nil
  then show ?case by simp
next
  case (Cons key keys)
  from Cons.prems(2) have sub: "set keys \<subseteq> K" and kK: "key \<in> K" by auto
  show ?case
  proof (cases "js_includes bl key")
    case (Inl e)
    with Cons.prems(1) show ?thesis by simp
  next
    case (Inr b)
    show ?thesis
    proof (cases b)
      case True
      with Inr Cons.prems(1) have "schema_loop schema achData bl keys acc = Inr achs" by simp
      from Cons.IH [OF this sub Cons.prems(3)] show ?thesis .
    next
      case False
      show ?thesis
      proof (cases "js_get achData key")
        case (Inl e)
        with Inr False Cons.prems(1) show ?thesis by simp
      next
        case got: (Inr userAch)
        show ?thesis
        proof (cases "nullish (js_prop schema key)")
          case True
          with Inr False got Cons.prems(1) show ?thesis by simp
        next
          case nn: False
          with Inr False got Cons.prems(1)
          have run: "schema_loop schema achData bl keys
                       (acc @ [schema_entry key (js_prop schema key) userAch]) = Inr achs"
            by simp
          have "\<forall>a \<in> set (acc @ [schema_entry key (js_prop schema key) userAch]).
                  \<exists>key userAch. key \<in> K \<and> js_includes bl key = Inr False
                  \<and> js_get achData key = Inr userAch \<and> \<not> nullish (js_prop schema key)
                  \<and> a = schema_entry key (js_prop schema key) userAch"
            using Cons.prems(3) Inr False got nn kK by auto
          from Cons.IH [OF run sub this] show ?thesis .
        qed
      qed
    qed
  qed
qed


lemma canonicalGame_entries:
  assumes "canonicalGame app_id ad info = Inr g"
    and "a \<in> set (achievements g)"
  shows "\<not> nullish ad \<and>
         (if schema_present info
          then \<exists>key userAch. key \<in> set (forin_keys (js_prop info ''achievements''))
                 \<and> js_includes (blacklist_of info) key = Inr False
                 \<and> js_get (achData_of ad) key = Inr userAch
                 \<and> \<not> nullish (js_prop (js_prop info ''achievements'') key)
                 \<and> a = schema_entry key (js_prop (js_prop info ''achievements'') key) userAch
          else \<exists>key ach. key \<in> set (forin_keys (achData_of ad))
                 \<and> js_includes (blacklist_of info) key = Inr False
                 \<and> js_get (achData_of ad) key = Inr ach \<and> \<not> nullish ach
                 \<and> a = save_entry key ach)"
proof -
  from assms(1) have nn: "\<not> nullish ad"
    by (auto simp: canonicalGame_def Let_def split: if_splits)
  show ?thesis
  proof (cases "schema_present info")
    case True
    with assms(1) nn have run: "schema_loop (js_prop info ''achievements'') (achData_of ad)
        (blacklist_of info) (forin_keys (js_prop info ''achievements'')) [] = Inr (achievements g)"
      by (auto simp: canonicalGame_def Let_def split: sum.splits)
    from schema_loop_entries [OF run subset_refl] assms(2) nn True show ?thesis by simp
  next
    case False
    with assms(1) nn have run: "save_loop (achData_of ad) (blacklist_of info)
        (forin_keys (achData_of ad)) [] = Inr (achievements g)"
      by (auto simp: canonicalGame_def Let_def split: sum.splits)
    from save_loop_entries [OF run subset_refl] assms(2) nn False show ?thesis by simp
  qed
qed

lemma entry_apiname:
  "apiname (save_entry key ach) = key" "apiname (schema_entry key achInfo userAch) = key"
  by (simp_all add: save_entry_def schema_entry_def)

text \<open>
  Claim C4.  No achievement whose key is in the blacklist appears in the canonical list
  that the normaliser builds, whichever of its two branches runs: for every achievement
  of the result, \<^verbatim>\<open>blacklist.includes(key)\<close> is false, so that the key is no element of a
  blacklist array.
\<close>

theorem canonicalGame_excludes_blacklist:
  assumes "canonicalGame app_id ad info = Inr g"
    and "a \<in> set (achievements g)"
  shows "js_includes (blacklist_of info) (apiname a) = Inr False
       \<and> (\<forall>xs. js_get_opt info ''blacklist'' = JArr xs \<longrightarrow> JStr (apiname a) \<notin> set xs)"
proof -
  from canonicalGame_entries [OF assms]
  have inc: "js_includes (blacklist_of info) (apiname a) = Inr False"
    by (auto simp: entry_apiname split: if_splits)
  have "JStr (apiname a) \<notin> set xs" if "js_get_opt info ''blacklist'' = JArr xs" for xs
    using inc that by (simp add: blacklist_of_def js_or_def)
  with inc show ?thesis by blast
qed


lemma falsy_prop: "\<not> truthy v \<Longrightarrow> \<not> truthy (js_prop v k)"
  by (cases v) (auto split: option.splits)

lemma js_get_Inr: "js_get v k = Inr x \<Longrightarrow> x = js_prop v k \<and> \<not> nullish v"
  by (auto simp: js_get_def split: if_splits)

lemma unlocked_chain_first:
  "unlocked_chain u =
     (case first_truthy [js_prop u ''earned'', js_prop u ''unlocked'', js_prop u ''achieved''] of
        Some v \<Rightarrow> v | None \<Rightarrow> JBool False)"
  by (simp add: unlocked_chain_def js_or_def)

lemma unlocked_chain_falsy: "\<not> truthy u \<Longrightarrow> unlocked_chain u = JBool False"
  by (simp add: unlocked_chain_def js_or_def falsy_prop)

text \<open>
  Claim C6, amended.  For every canonical achievement built by the normaliser, the
  \<^verbatim>\<open>unlocked\<close> field is resolved from the user-state entry under its key by checking
  \<^verbatim>\<open>earned\<close>, then \<^verbatim>\<open>unlocked\<close>, then \<^verbatim>\<open>achieved\<close>: the field is the first truthy of these
  values, as it stands (\<^verbatim>\<open>true\<close>, \<^verbatim>\<open>1\<close>, ...), and the boolean \<^verbatim>\<open>false\<close> when none is truthy
  or the entry is absent.  It is therefore \<^verbatim>\<open>false\<close> or truthy, but a boolean only when the
  winning value is one.
\<close>

theorem canonicalGame_unlocked_first_truthy:
  assumes "canonicalGame app_id ad info = Inr g"
    and "a \<in> set (achievements g)"
  shows "unlocked a =
           (if truthy (js_prop (achData_of ad) (apiname a))
            then (case first_truthy
                         [js_prop (js_prop (achData_of ad) (apiname a)) ''earned'',
                          js_prop (js_prop (achData_of ad) (apiname a)) ''unlocked'',
                          js_prop (js_prop (achData_of ad) (apiname a)) ''achieved''] of
                    Some v \<Rightarrow> v
                  | None \<Rightarrow> JBool False)
            else JBool False)
       \<and> (unlocked a = JBool False \<or> truthy (unlocked a))"
proof -
  let ?u = "js_prop (achData_of ad) (apiname a)"
  have eq: "unlocked a = (if truthy ?u then unlocked_chain ?u else JBool False)"
  proof (cases "schema_present info")
    case True
    with canonicalGame_entries [OF assms] obtain key userAch where
      "js_get (achData_of ad) key = Inr userAch"
      "a = schema_entry key (js_prop (js_prop info ''achievements'') key) userAch"
      by auto
    then show ?thesis using js_get_Inr by (auto simp: schema_entry_def)
  next
    case False
    with canonicalGame_entries [OF assms] obtain key ach where
      "js_get (achData_of ad) key = Inr ach" "a = save_entry key ach"
      by auto
    then show ?thesis using js_get_Inr unlocked_chain_falsy by (auto simp: save_entry_def)
  qed
  have "unlocked_chain ?u = JBool False \<or> truthy (unlocked_chain ?u)"
    by (simp add: unlocked_chain_def js_or_def)
  with eq show ?thesis by (auto simp: unlocked_chain_first)
qed

text \<open>
  Claim C7, amended.  When the normaliser runs its save-driven branch (no game info, or
  game info without a truthy \<^verbatim>\<open>achievements\<close>), every canonical achievement takes its
  name, description and icongray from the user-state entry through the alias chains
  (\<^verbatim>\<open>name\<close>, \<^verbatim>\<open>displayName\<close>, else the key; \<^verbatim>\<open>description\<close>, \<^verbatim>\<open>desc\<close>, else empty;
  \<^verbatim>\<open>icongray\<close>, \<^verbatim>\<open>icon_gray\<close>, \<^verbatim>\<open>icon\<close>, else empty), and its rarity and group from the
  entry's \<^verbatim>\<open>percent\<close> and \<^verbatim>\<open>group\<close>: each is \<^verbatim>\<open>null\<close> exactly when the entry carries no
  truthy value of that name.
\<close>

theorem canonicalGame_save_mode_fields:
  assumes "canonicalGame app_id ad info = Inr g"
    and "\<not> schema_present info"
    and "a \<in> set (achievements g)"
  shows "achievement.name a =
           (case first_truthy [js_prop (js_prop (achData_of ad) (apiname a)) ''name'',
                               js_prop (js_prop (achData_of ad) (apiname a)) ''displayName''] of
              Some v \<Rightarrow> v | None \<Rightarrow> JStr (apiname a))
       \<and> description a =
           (case first_truthy [js_prop (js_prop (achData_of ad) (apiname a)) ''description'',
                               js_prop (js_prop (achData_of ad) (apiname a)) ''desc''] of
              Some v \<Rightarrow> v | None \<Rightarrow> JStr [])
       \<and> icongray a =
           (case first_truthy [js_prop (js_prop (achData_of ad) (apiname a)) ''icongray'',
                               js_prop (js_prop (achData_of ad) (apiname a)) ''icon_gray'',
                               js_prop (js_prop (achData_of ad) (apiname a)) ''icon''] of
              Some v \<Rightarrow> v | None \<Rightarrow> JStr [])
       \<and> rarity a =
           (if truthy (js_prop (js_prop (achData_of ad) (apiname a)) ''percent'')
            then js_prop (js_prop (achData_of ad) (apiname a)) ''percent'' else JNull)
       \<and> group a =
           (if truthy (js_prop (js_prop (achData_of ad) (apiname a)) ''group'')
            then js_prop (js_prop (achData_of ad) (apiname a)) ''group'' else JNull)"
proof -
  from canonicalGame_entries [OF assms(1,3)] assms(2) obtain key ach where
    got: "js_get (achData_of ad) key = Inr ach" and a: "a = save_entry key ach"
    by auto
  from js_get_Inr [OF got] have ach: "ach = js_prop (achData_of ad) key" by simp
  have key: "apiname a = key" by (simp add: a entry_apiname)
  show ?thesis unfolding key
    by (simp add: a save_entry_def js_or_def ach)
qed

text \<open>
  The blacklist at work in both branches: with a schema of \<^verbatim>\<open>A\<close> and \<^verbatim>\<open>B\<close>, and with saved
  entries \<^verbatim>\<open>A\<close> and \<^verbatim>\<open>B\<close> only, the blacklist \<^verbatim>\<open>["A"]\<close> leaves \<^verbatim>\<open>B\<close>.
\<close>

theorem canonicalGame_excludes_blacklist_witness:
  "canonicalGame ''480''
     (JObj [(''A'', JObj [(''earned'', JBool True), (''earned_time'', JNum 1000)])])
     (JObj [(''achievements'', JObj [(''A'', JObj [(''name'', JStr ''A''), (''percent'', JNum 5)]),
                                     (''B'', JObj [(''name'', JStr ''Bee'')])]),
            (''blacklist'', JArr [JStr ''A''])])
   = Inr \<lparr> appId = ''480'', name = JStr ''Game 480'', icon = JStr [],
           achievements = [\<lparr> apiname = ''B'', name = JStr ''Bee'', description = JStr [],
                             hidden = JBool False, icon = JStr [], icongray = JStr [],
                             unlocked = JBool False, unlocktime = JNum 0, rarity = JNull,
                             group = JNull \<rparr>],
           usesDb = JBool False, platform = JNull \<rparr>
   \<and> canonicalGame ''480''
     (JObj [(''A'', JObj [(''earned'', JBool True)]), (''B'', JObj [(''earned'', JBool False)])])
     (JObj [(''blacklist'', JArr [JStr ''A''])])
   = Inr \<lparr> appId = ''480'', name = JStr ''Game 480'', icon = JStr [],
           achievements = [\<lparr> apiname = ''B'', name = JStr ''B'', description = JStr [],
                             hidden = JBool False, icon = JStr [], icongray = JStr [],
                             unlocked = JBool False, unlocktime = JNum 0, rarity = JNull,
                             group = JNull \<rparr>],
           usesDb = JBool False, platform = JNull \<rparr>
   \<and> JStr ''B'' \<notin> set [JStr ''A'']"
proof -
  let ?info1 = "JObj [(''achievements'', JObj [(''A'', JObj [(''name'', JStr ''A''), (''percent'', JNum 5)]),
                                     (''B'', JObj [(''name'', JStr ''Bee'')])]),
            (''blacklist'', JArr [JStr ''A''])]"
  let ?b1 = "\<lparr> apiname = ''B'', name = JStr ''Bee'', description = JStr [],
                             hidden = JBool False, icon = JStr [], icongray = JStr [],
                             unlocked = JBool False, unlocktime = JNum 0, rarity = JNull,
                             group = JNull \<rparr>"
  let ?g1 = "\<lparr> appId = ''480'', name = JStr ''Game 480'', icon = JStr [],
           achievements = [?b1], usesDb = JBool False, platform = JNull \<rparr>"
  let ?info2 = "JObj [(''blacklist'', JArr [JStr ''A''])]"
  let ?b2 = "\<lparr> apiname = ''B'', name = JStr ''B'', description = JStr [],
                             hidden = JBool False, icon = JStr [], icongray = JStr [],
                             unlocked = JBool False, unlocktime = JNum 0, rarity = JNull,
                             group = JNull \<rparr>"
  let ?g2 = "\<lparr> appId = ''480'', name = JStr ''Game 480'', icon = JStr [],
           achievements = [?b2], usesDb = JBool False, platform = JNull \<rparr>"
  have run1: "canonicalGame ''480''
     (JObj [(''A'', JObj [(''earned'', JBool True), (''earned_time'', JNum 1000)])]) ?info1 = Inr ?g1"
    by (simp add: js_eval)
  have run2: "canonicalGame ''480''
     (JObj [(''A'', JObj [(''earned'', JBool True)]), (''B'', JObj [(''earned'', JBool False)])])
     ?info2 = Inr ?g2"
    by (simp add: js_eval)
  have m1: "?b1 \<in> set (achievements ?g1)" by simp
  have m2: "?b2 \<in> set (achievements ?g2)" by simp
  have bl: "js_get_opt ?info1 ''blacklist'' = JArr [JStr ''A'']" by (simp add: js_get_opt_def)
  from canonicalGame_excludes_blacklist [OF run1 m1] bl
  have "JStr ''B'' \<notin> set [JStr ''A'']" by simp
  with run1 run2 canonicalGame_excludes_blacklist [OF run2 m2] show ?thesis by blast
qed

text \<open>
  Claim C6 as stated fails: a saved entry \<^verbatim>\<open>{earned: 1}\<close> gives the achievement the
  \<^verbatim>\<open>unlocked\<close> value \<^verbatim>\<open>1\<close>, a number.  (The readers of the field test its truthiness, or
  compare it with both \<^verbatim>\<open>true\<close> and \<^verbatim>\<open>1\<close>.)
\<close>

theorem canonicalGame_unlocked_not_boolean:
  "canonicalGame ''480'' (JObj [(''A'', JObj [(''earned'', JNum 1)])]) JNull
   = Inr \<lparr> appId = ''480'', name = JStr ''Game 480'', icon = JStr [],
           achievements = [\<lparr> apiname = ''A'', name = JStr ''A'', description = JStr [],
                             hidden = JBool False, icon = JStr [], icongray = JStr [],
                             unlocked = JNum 1, unlocktime = JNum 0, rarity = JNull,
                             group = JNull \<rparr>],
           usesDb = JBool False, platform = JNull \<rparr>"
  by (simp add: js_eval)

text \<open>An entry whose second alias is the first truthy one.\<close>

theorem canonicalGame_unlocked_first_truthy_witness:
  "canonicalGame ''480''
     (JObj [(''A'', JObj [(''earned'', JBool False), (''unlocked'', JNum 1), (''achieved'', JBool True)])])
     JNull
   = Inr \<lparr> appId = ''480'', name = JStr ''Game 480'', icon = JStr [],
           achievements = [\<lparr> apiname = ''A'', name = JStr ''A'', description = JStr [],
                             hidden = JBool False, icon = JStr [], icongray = JStr [],
                             unlocked = JNum 1, unlocktime = JNum 0, rarity = JNull,
                             group = JNull \<rparr>],
           usesDb = JBool False, platform = JNull \<rparr>
   \<and> first_truthy [JBool False, JNum 1, JBool True] = Some (JNum 1)"
proof -
  let ?ad = "JObj [(''A'', JObj [(''earned'', JBool False), (''unlocked'', JNum 1), (''achieved'', JBool True)])]"
  let ?a = "\<lparr> apiname = ''A'', name = JStr ''A'', description = JStr [],
                             hidden = JBool False, icon = JStr [], icongray = JStr [],
                             unlocked = JNum 1, unlocktime = JNum 0, rarity = JNull,
                             group = JNull \<rparr>"
  let ?g = "\<lparr> appId = ''480'', name = JStr ''Game 480'', icon = JStr [],
           achievements = [?a], usesDb = JBool False, platform = JNull \<rparr>"
  have run: "canonicalGame ''480'' ?ad JNull = Inr ?g" by (simp add: js_eval)
  have mem: "?a \<in> set (achievements ?g)" by simp
  from canonicalGame_unlocked_first_truthy [OF run mem] run show ?thesis by simp
qed

text \<open>
  Claim C7 as stated fails: without any schema, a saved entry that carries \<^verbatim>\<open>percent\<close> and
  \<^verbatim>\<open>group\<close> gives the achievement that rarity and that group.
\<close>

theorem canonicalGame_save_mode_rarity_not_null:
  "canonicalGame ''480''
     (JObj [(''A'', JObj [(''earned'', JBool True), (''percent'', JNum 5), (''group'', JStr ''DLC'')])])
     JNull
   = Inr \<lparr> appId = ''480'', name = JStr ''Game 480'', icon = JStr [],
           achievements = [\<lparr> apiname = ''A'', name = JStr ''A'', description = JStr [],
                             hidden = JBool False, icon = JStr [], icongray = JStr [],
                             unlocked = JBool True, unlocktime = JNum 0, rarity = JNum 5,
                             group = JStr ''DLC'' \<rparr>],
           usesDb = JBool False, platform = JNull \<rparr>"
  by (simp add: js_eval)

text \<open>The third end-to-end scenario of the specification, after the conversion.\<close>

theorem canonicalGame_save_mode_fields_witness:
  "canonicalGame ''480''
     (JObj [(''B'', JObj [(''earned'', JBool True), (''earned_time'', JNum 500),
                          (''displayName'', JStr ''Bee''), (''icon_gray'', JStr ''b.png'')])])
     JNull
   = Inr \<lparr> appId = ''480'', name = JStr ''Game 480'', icon = JStr [],
           achievements = [\<lparr> apiname = ''B'', name = JStr ''Bee'', description = JStr [],
                             hidden = JBool False, icon = JStr [], icongray = JStr ''b.png'',
                             unlocked = JBool True, unlocktime = JNum 500, rarity = JNull,
                             group = JNull \<rparr>],
           usesDb = JBool False, platform = JNull \<rparr>
   \<and> \<not> schema_present JNull
   \<and> rarity \<lparr> apiname = ''B'', name = JStr ''Bee'', description = JStr [],
                             hidden = JBool False, icon = JStr [], icongray = JStr ''b.png'',
                             unlocked = JBool True, unlocktime = JNum 500, rarity = JNull,
                             group = JNull \<rparr> = JNull"
proof -
  let ?ad = "JObj [(''B'', JObj [(''earned'', JBool True), (''earned_time'', JNum 500),
                          (''displayName'', JStr ''Bee''), (''icon_gray'', JStr ''b.png'')])]"
  let ?a = "\<lparr> apiname = ''B'', name = JStr ''Bee'', description = JStr [],
                             hidden = JBool False, icon = JStr [], icongray = JStr ''b.png'',
                             unlocked = JBool True, unlocktime = JNum 500, rarity = JNull,
                             group = JNull \<rparr>"
  let ?g = "\<lparr> appId = ''480'', name = JStr ''Game 480'', icon = JStr [],
           achievements = [?a], usesDb = JBool False, platform = JNull \<rparr>"
  have run: "canonicalGame ''480'' ?ad JNull = Inr ?g" by (simp add: js_eval)
  have mode: "\<not> schema_present JNull" by (simp add: schema_present_def)
  have mem: "?a \<in> set (achievements ?g)" by simp
  from canonicalGame_save_mode_fields [OF run mode mem] run mode show ?thesis by simp
qed

text \<open>
  Claim C1 does not hold of \<^verbatim>\<open>processGameData\<close>: a game info whose \<^verbatim>\<open>achievements\<close> is
  the empty object is truthy, so the schema branch runs over no keys and the canonical
  list is empty although the user has an entry; without game info the same payload
  gives one achievement.  The hub's \<^verbatim>\<open>loadGameData\<close> tests the number of schema keys and
  counts the saved entry for the same game.
\<close>

theorem processGameData_empty_schema_is_schema_driven:
  "canonicalGame ''480'' (JObj [(''A'', JObj [(''earned'', JBool True)])])
     (JObj [(''achievements'', JObj [])])
   = Inr \<lparr> appId = ''480'', name = JStr ''Game 480'', icon = JStr [],
           achievements = [], usesDb = JBool False, platform = JNull \<rparr>
   \<and> canonicalGame ''480'' (JObj [(''A'', JObj [(''earned'', JBool True)])]) JNull
   = Inr \<lparr> appId = ''480'', name = JStr ''Game 480'', icon = JStr [],
           achievements = [\<lparr> apiname = ''A'', name = JStr ''A'', description = JStr [],
                             hidden = JBool False, icon = JStr [], icongray = JStr [],
                             unlocked = JBool True, unlocktime = JNum 0, rarity = JNull,
                             group = JNull \<rparr>],
           usesDb = JBool False, platform = JNull \<rparr>
   \<and> hub_game (JObj [(''appid'', JNum 480),
                     (''achievements'', JObj [(''A'', JObj [(''earned'', JBool True)])]),
                     (''info'', JObj [(''achievements'', JObj [])])])
   = Inr \<lparr> totalCount = 1, earnedCount = 1, canDeterminePerfect = False \<rparr>"
  by (simp add: js_eval hub_game_def count_earned_def has_earned_def is_true_or_one_def)

section \<open>Properties of the legacy conversion\<close>

text \<open>Defining a property changes the object as a map at that key only.\<close>

lemma obj_replace_keys: "map fst (obj_replace k v kvs) = map fst kvs"
  by (induction kvs) auto

lemma obj_replace_lookup_at:
  assumes "k \<in> fst ` set kvs"
  shows "map_of (obj_replace k v kvs) x = (if x = k then Some v else map_of kvs x)"
  using assms
proof (induction kvs)
  case Nil
  then show ?case by simp
next
  case (Cons p kvs)
  obtain k' v' where p: "p = (k', v')" by (cases p)
  show ?case
  proof (cases "k' = k")
    case True
    with p show ?thesis by simp
  next
    case False
    with Cons.prems p have "k \<in> fst ` set kvs" by auto
    from Cons.IH [OF this] False p show ?thesis by (auto split: if_splits)
  qed
qed

lemma obj_insert_index_keys:
  "fst ` set (obj_insert_index i k v kvs) = insert k (fst ` set kvs)"
proof (induction kvs)
  case Nil
  then show ?case by simp
next
  case (Cons p kvs)
  obtain k' v' where p: "p = (k', v')" by (cases p)
  show ?case
  proof (cases "parseIndex k'")
    case None
    with p show ?thesis by simp
  next
    case (Some j)
    show ?thesis
    proof (cases "i < j")
      case True
      with Some p show ?thesis by simp
    next
      case False
      with Some p have "obj_insert_index i k v (p # kvs) = (k', v') # obj_insert_index i k v kvs"
        by simp
      then have "fst ` set (obj_insert_index i k v (p # kvs))
                   = insert k' (fst ` set (obj_insert_index i k v kvs))" by simp
      also have "\<dots> = insert k' (insert k (fst ` set kvs))" by (simp only: Cons.IH)
      also have "\<dots> = insert k (fst ` set (p # kvs))" using p by auto
      finally show ?thesis .
    qed
  qed
qed

lemma obj_insert_index_distinct:
  assumes "k \<notin> fst ` set kvs" and "distinct (map fst kvs)"
  shows "distinct (map fst (obj_insert_index i k v kvs))"
  using assms
proof (induction kvs)
  case Nil
  then show ?case by simp
next
  case (Cons p kvs)
  obtain k' v' where p: "p = (k', v')" by (cases p)
  from Cons.prems p have fresh: "k \<notin> fst ` set kvs" and d: "distinct (map fst kvs)"
    and ne: "k' \<noteq> k" and k': "k' \<notin> fst ` set kvs" by auto
  from Cons.IH [OF fresh d] have ih: "distinct (map fst (obj_insert_index i k v kvs))" .
  have "k' \<notin> fst ` set (obj_insert_index i k v kvs)"
    using ne k' by (simp only: obj_insert_index_keys) simp
  then have k'': "k' \<notin> set (map fst (obj_insert_index i k v kvs))" by simp
  show ?case
  proof (cases "parseIndex k'")
    case None
    with p Cons.prems show ?thesis by auto
  next
    case (Some j)
    show ?thesis
    proof (cases "i < j")
      case True
      with Some p Cons.prems show ?thesis by auto
    next
      case False
      with Some p ih k'' show ?thesis by simp
    qed
  qed
qed

lemma obj_insert_index_lookup_at:
  assumes "k \<notin> fst ` set kvs"
  shows "map_of (obj_insert_index i k v kvs) x = (if x = k then Some v else map_of kvs x)"
  using assms
proof (induction kvs)
  case Nil
  then show ?case by simp
next
  case (Cons p kvs)
  obtain k' v' where p: "p = (k', v')" by (cases p)
  from Cons.prems p have ne: "k' \<noteq> k" and fresh: "k \<notin> fst ` set kvs" by auto
  from Cons.IH [OF fresh]
  have ih: "map_of (obj_insert_index i k v kvs) x = (if x = k then Some v else map_of kvs x)" .
  show ?case
  proof (cases "parseIndex k'")
    case None
    with p ne show ?thesis by simp
  next
    case (Some j)
    show ?thesis
    proof (cases "i < j")
      case True
      with Some p ne show ?thesis by simp
    next
      case False
      with Some p ne ih show ?thesis by (auto split: if_splits)
    qed
  qed
qed

lemma map_of_snoc_fresh_at:
  assumes "k \<notin> fst ` set kvs"
  shows "map_of (kvs @ [(k, v)]) x = (if x = k then Some v else map_of kvs x)"
proof -
  from assms have "map_of kvs k = None" by (simp add: map_of_eq_None_iff)
  then show ?thesis by (cases "map_of kvs x") (auto simp: map_add_def)
qed

lemma own_set_lookup_at:
  "map_of (own_set kvs k v) x = (if x = k then Some v else map_of kvs x)"
proof (cases "k \<in> fst ` set kvs")
  case True
  then have "own_set kvs k v = obj_replace k v kvs" by (simp add: own_set_def)
  with obj_replace_lookup_at [OF True] show ?thesis by simp
next
  case False
  show ?thesis
  proof (cases "parseIndex k")
    case None
    with False have "own_set kvs k v = kvs @ [(k, v)]" by (simp add: own_set_def)
    with map_of_snoc_fresh_at [OF False] show ?thesis by simp
  next
    case (Some i)
    with False have "own_set kvs k v = obj_insert_index i k v kvs" by (simp add: own_set_def)
    with obj_insert_index_lookup_at [OF False] show ?thesis by simp
  qed
qed

lemma own_set_distinct:
  assumes "distinct (map fst kvs)"
  shows "distinct (map fst (own_set kvs k v))"
proof (cases "k \<in> fst ` set kvs")
  case True
  with assms show ?thesis by (simp add: own_set_def obj_replace_keys)
next
  case False
  show ?thesis
  proof (cases "parseIndex k")
    case None
    with False assms show ?thesis by (simp add: own_set_def)
  next
    case (Some i)
    with False have "own_set kvs k v = obj_insert_index i k v kvs" by (simp add: own_set_def)
    with obj_insert_index_distinct [OF False assms] show ?thesis by simp
  qed
qed


lemma obj_of_entries_lookup_at:
  "map_of (obj_of_entries acc es) x
     = (case map_of (rev es) x of Some v \<Rightarrow> Some v | None \<Rightarrow> map_of acc x)"
proof (induction es arbitrary: acc)
  case Nil
  then show ?case by (simp add: obj_of_entries_def)
next
  case (Cons e es)
  obtain k v where e: "e = (k, v)" by (cases e)
  have step: "obj_of_entries acc (e # es) = obj_of_entries (own_set acc k v) es"
    by (simp add: obj_of_entries_def e)
  show ?case
    unfolding step Cons.IH
    by (cases "map_of (rev es) x") (simp_all add: e own_set_lookup_at map_add_def)
qed

lemma obj_of_entries_lookup: "map_of (obj_of_entries [] es) = map_of (rev es)"
proof (rule ext)
  fix x show "map_of (obj_of_entries [] es) x = map_of (rev es) x"
    by (simp add: obj_of_entries_lookup_at split: option.splits)
qed

lemma obj_of_entries_distinct:
  "distinct (map fst acc) \<Longrightarrow> distinct (map fst (obj_of_entries acc es))"
proof (induction es arbitrary: acc)
  case Nil
  then show ?case by (simp add: obj_of_entries_def)
next
  case (Cons e es)
  obtain k v where e: "e = (k, v)" by (cases e)
  from Cons.prems have "distinct (map fst (own_set acc k v))" by (rule own_set_distinct)
  from Cons.IH [OF this] show ?case by (simp add: obj_of_entries_def e)
qed

lemma converted_fields_spec:
  assumes "legacy_record e"
  shows "JObj (converted_fields e) = spec_keyed_value e"
proof (cases "js_prop e ''unlocktime''")
  case JUndefined
  then show ?thesis by (simp add: converted_fields_def spec_keyed_value_def js_or_def)
next
  case (JNum t)
  then show ?thesis by (simp add: converted_fields_def spec_keyed_value_def js_or_def)
qed (use assms in \<open>simp_all add: legacy_record_def\<close>)

lemma convert_loop_records:
  assumes "\<forall>e \<in> set arr. legacy_record e"
  shows "convert_loop ns arr (own, proto)
           = Inr (obj_of_entries own (spec_keyed_entries arr), proto)"
  using assms
proof (induction arr arbitrary: own)
  case Nil
  then show ?case by (simp add: obj_of_entries_def spec_keyed_entries_def)
next
  case (Cons e arr)
  from Cons.prems have ok: "legacy_record e" and rest: "\<forall>e \<in> set arr. legacy_record e"
    by auto
  from ok have nn: "\<not> nullish e" by (simp add: legacy_record_def)
  have split: "spec_keyed_entries (e # arr) = spec_keyed_entries [e] @ spec_keyed_entries arr"
    by (simp add: spec_keyed_entries_def)
  show ?case
  proof (cases "js_prop e ''apiname''")
    case JUndefined
    with nn have "convert_loop ns (e # arr) (own, proto) = convert_loop ns arr (own, proto)"
      by (simp add: js_get_def)
    moreover from JUndefined have "spec_keyed_entries [e] = []"
      by (simp add: spec_keyed_entries_def)
    ultimately show ?thesis using Cons.IH [OF rest] split by simp
  next
    case (JStr k)
    with ok have k: "k \<noteq> []" "k \<noteq> ''__proto__''" by (simp_all add: legacy_record_def)
    with JStr nn have "convert_loop ns (e # arr) (own, proto)
        = convert_loop ns arr (own_set own k (JObj (converted_fields e)), proto)"
      by (simp add: js_get_def obj_set_def)
    moreover from JStr have "spec_keyed_entries [e] = [(k, spec_keyed_value e)]"
      by (simp add: spec_keyed_entries_def)
    ultimately show ?thesis using Cons.IH [OF rest] split
      by (simp add: obj_of_entries_def converted_fields_spec [OF ok])
  qed (use ok in \<open>simp_all add: legacy_record_def\<close>)
qed

text \<open>
  On the records of the data model the conversion does what the specification says: it
  yields the keyed mapping, as the object \<^verbatim>\<open>JSON.parse\<close> would make of it, with one
  property per key, and the canonical game is the one of that mapping.
\<close>

lemma legacy_records_convert_to_keyed_mapping:
  assumes "\<forall>e \<in> set arr. legacy_record e"
  shows "convertLegacy ns (JArr arr) = Inr (JObj (spec_keyed_object arr))"
    and "distinct (map fst (spec_keyed_object arr))"
    and "map_of (spec_keyed_object arr) = spec_keyed_mapping arr"
    and "normalizeFetched ns app_id (JArr arr) info
           = canonicalGame app_id (JObj (spec_keyed_object arr))
               (if info = JUndefined then JNull else info)"
proof -
  show conv: "convertLegacy ns (JArr arr) = Inr (JObj (spec_keyed_object arr))"
    by (simp add: convertLegacy_def convert_loop_records [OF assms] spec_keyed_object_def
        obj_value_def)
  show "distinct (map fst (spec_keyed_object arr))"
    unfolding spec_keyed_object_def by (rule obj_of_entries_distinct) simp
  show "map_of (spec_keyed_object arr) = spec_keyed_mapping arr"
    by (simp add: obj_of_entries_lookup spec_keyed_mapping_def spec_keyed_object_def)
  show "normalizeFetched ns app_id (JArr arr) info
           = canonicalGame app_id (JObj (spec_keyed_object arr))
               (if info = JUndefined then JNull else info)"
    by (simp add: normalizeFetched_def conv)
qed

text \<open>
  Claim C5 does not hold of the conversion.  The legacy array
  \<^verbatim>\<open>[{apiname: "__proto__", achieved: 1, unlocktime: 500}, {apiname: "b", achieved: 0, unlocktime: 0}]\<close>
  is converted by \<^verbatim>\<open>converted[ach.apiname] = {...}\<close>, and the assignment to \<^verbatim>\<open>__proto__\<close>
  replaces the prototype of \<^verbatim>\<open>converted\<close> instead of adding a key.  The loop of
  \<^verbatim>\<open>processGameData\<close> then visits \<^verbatim>\<open>b\<close> and the inherited \<^verbatim>\<open>earned\<close> and \<^verbatim>\<open>earned_time\<close>, so the
  canonical list has the three achievements \<^verbatim>\<open>b\<close>, \<^verbatim>\<open>earned\<close>, \<^verbatim>\<open>earned_time\<close>.  The equivalent
  keyed mapping \<^verbatim>\<open>{"__proto__": {earned: true, earned_time: 500}, "b": {earned: false, earned_time: 0}}\<close>
  gives the two achievements \<^verbatim>\<open>__proto__\<close> (unlocked at 500) and \<^verbatim>\<open>b\<close>.
\<close>

theorem legacy_array_proto_key_not_equivalent:
  "normalizeFetched ns ''480''
     (JArr [JObj [(''apiname'', JStr ''__proto__''), (''achieved'', JNum 1), (''unlocktime'', JNum 500)],
            JObj [(''apiname'', JStr ''b''), (''achieved'', JNum 0), (''unlocktime'', JNum 0)]])
     JNull
   = Inr \<lparr> appId = ''480'', name = JStr ''Game 480'', icon = JStr [],
           achievements =
             [\<lparr> apiname = ''b'', name = JStr ''b'', description = JStr [],
                hidden = JBool False, icon = JStr [], icongray = JStr [],
                unlocked = JBool False, unlocktime = JNum 0, rarity = JNull, group = JNull \<rparr>,
              \<lparr> apiname = ''earned'', name = JStr ''earned'', description = JStr [],
                hidden = JBool False, icon = JStr [], icongray = JStr [],
                unlocked = JBool False, unlocktime = JNum 0, rarity = JNull, group = JNull \<rparr>,
              \<lparr> apiname = ''earned_time'', name = JStr ''earned_time'', description = JStr [],
                hidden = JBool False, icon = JStr [], icongray = JStr [],
                unlocked = JBool False, unlocktime = JNum 0, rarity = JNull, group = JNull \<rparr>],
           usesDb = JBool False, platform = JNull \<rparr>
   \<and> canonicalGame ''480''
       (JObj [(''__proto__'', JObj [(''earned'', JBool True), (''earned_time'', JNum 500)]),
              (''b'', JObj [(''earned'', JBool False), (''earned_time'', JNum 0)])])
       JNull
   = Inr \<lparr> appId = ''480'', name = JStr ''Game 480'', icon = JStr [],
           achievements =
             [\<lparr> apiname = ''__proto__'', name = JStr ''__proto__'', description = JStr [],
                hidden = JBool False, icon = JStr [], icongray = JStr [],
                unlocked = JBool True, unlocktime = JNum 500, rarity = JNull, group = JNull \<rparr>,
              \<lparr> apiname = ''b'', name = JStr ''b'', description = JStr [],
                hidden = JBool False, icon = JStr [], icongray = JStr [],
                unlocked = JBool False, unlocktime = JNum 0, rarity = JNull, group = JNull \<rparr>],
           usesDb = JBool False, platform = JNull \<rparr>"
proof -
  have conv: "convertLegacy ns
     (JArr [JObj [(''apiname'', JStr ''__proto__''), (''achieved'', JNum 1), (''unlocktime'', JNum 500)],
            JObj [(''apiname'', JStr ''b''), (''achieved'', JNum 0), (''unlocktime'', JNum 0)]])
     = Inr (JObjProto [(''b'', JObj [(''earned'', JBool False), (''earned_time'', JNum 0)])]
              [(''earned'', JBool True), (''earned_time'', JNum 500)])"
    by (simp add: convertLegacy_def js_get_def obj_set_def own_set_def parseIndex_def is_digit_def
        converted_fields_def js_or_def obj_value_def)
  show ?thesis
    by (simp add: normalizeFetched_def conv) (simp add: js_eval)
qed

text \<open>
  The object of that theorem is the keyed mapping of the array as defined above, and
  the conversion gives an object with one own key and a replaced prototype.
\<close>

lemma legacy_array_proto_key_mapping:
  "spec_keyed_object
     [JObj [(''apiname'', JStr ''__proto__''), (''achieved'', JNum 1), (''unlocktime'', JNum 500)],
      JObj [(''apiname'', JStr ''b''), (''achieved'', JNum 0), (''unlocktime'', JNum 0)]]
   = [(''__proto__'', JObj [(''earned'', JBool True), (''earned_time'', JNum 500)]),
      (''b'', JObj [(''earned'', JBool False), (''earned_time'', JNum 0)])]"
  and "convertLegacy ns
     (JArr [JObj [(''apiname'', JStr ''__proto__''), (''achieved'', JNum 1), (''unlocktime'', JNum 500)],
            JObj [(''apiname'', JStr ''b''), (''achieved'', JNum 0), (''unlocktime'', JNum 0)]])
   = Inr (JObjProto [(''b'', JObj [(''earned'', JBool False), (''earned_time'', JNum 0)])]
            [(''earned'', JBool True), (''earned_time'', JNum 500)])"
  by (simp_all add: spec_keyed_object_def spec_keyed_entries_def spec_keyed_value_def
      obj_of_entries_def convertLegacy_def js_get_def obj_set_def own_set_def parseIndex_def
      is_digit_def converted_fields_def js_or_def obj_value_def)

text \<open>
  A \<^verbatim>\<open>null\<close> element makes the conversion throw at \<^verbatim>\<open>ach.apiname\<close>, so the game is skipped,
  where the keyed mapping has no entry for it and gives a game without achievements.
\<close>

lemma legacy_array_null_entry_throws:
  "normalizeFetched ns ''480'' (JArr [JNull]) JNull = Inl TypeError"
  and "spec_keyed_object [JNull] = []"
  and "canonicalGame ''480'' (JObj []) JNull
         = Inr \<lparr> appId = ''480'', name = JStr ''Game 480'', icon = JStr [],
                 achievements = [], usesDb = JBool False, platform = JNull \<rparr>"
  by (simp_all add: normalizeFetched_def convertLegacy_def js_get_def spec_keyed_object_def
      spec_keyed_entries_def obj_of_entries_def js_eval)

text \<open>The third end-to-end scenario of the specification, through the conversion.\<close>

lemma legacy_array_scenario:
  "normalizeFetched ns ''480''
       (JArr [JObj [(''apiname'', JStr ''B''), (''achieved'', JNum 1), (''unlocktime'', JNum 500)],
              JObj [(''achieved'', JNum 1)]]) JNull
     = Inr \<lparr> appId = ''480'', name = JStr ''Game 480'', icon = JStr [],
             achievements = [\<lparr> apiname = ''B'', name = JStr ''B'', description = JStr [],
                               hidden = JBool False, icon = JStr [], icongray = JStr [],
                               unlocked = JBool True, unlocktime = JNum 500, rarity = JNull,
                               group = JNull \<rparr>],
             usesDb = JBool False, platform = JNull \<rparr>"
proof -
  have conv: "convertLegacy ns
       (JArr [JObj [(''apiname'', JStr ''B''), (''achieved'', JNum 1), (''unlocktime'', JNum 500)],
              JObj [(''achieved'', JNum 1)]])
     = Inr (JObj [(''B'', JObj [(''earned'', JBool True), (''earned_time'', JNum 500)])])"
    by (simp add: convertLegacy_def js_get_def obj_set_def own_set_def parseIndex_def is_digit_def
        converted_fields_def js_or_def obj_value_def)
  show ?thesis by (simp add: normalizeFetched_def conv) (simp add: js_eval)
qed

text \<open>
  The conversion is the callers' work: \<^verbatim>\<open>processGameData\<close> itself reads an array by its
  indices, as \<^verbatim>\<open>loadGamesFromData\<close> would pass it on from a combined file that held one.
\<close>

lemma unconverted_array_is_read_by_index:
  "canonicalGame ''480''
     (JArr [JObj [(''apiname'', JStr ''B''), (''achieved'', JNum 1), (''unlocktime'', JNum 500)]])
     JNull
   = Inr \<lparr> appId = ''480'', name = JStr ''Game 480'', icon = JStr [],
           achievements = [\<lparr> apiname = ''0'', name = JStr ''0'', description = JStr [],
                             hidden = JBool False, icon = JStr [], icongray = JStr [],
                             unlocked = JNum 1, unlocktime = JNum 500, rarity = JNull,
                             group = JNull \<rparr>],
           usesDb = JBool False, platform = JNull \<rparr>"
proof -
  have k: "nat_to_string 0 = ''0''" by (simp add: nat_to_string.simps digit_char_def)
  show ?thesis
    by (simp add: js_eval k parseIndex_def is_digit_def digits_val_def digit_val_def)
qed

section \<open>Properties of the cached loader\<close>

text \<open>The group of a match is never empty, so a matched timestamp is a truthy string.\<close>

lemma match_here_nonempty: "match_here s = Some ds \<Longrightarrow> ds \<noteq> []"
  by (auto simp: match_here_def Let_def split: if_splits)

lemma match_last_updated_nonempty: "match_last_updated s = Some ds \<Longrightarrow> ds \<noteq> []"
proof (induction s)
  case Nil
  then show ?case by simp
next
  case (Cons c cs)
  then show ?case
    by (cases "match_here (c # cs)") (auto dest: match_here_nonempty)
qed

lemma smart_check_cached:
  assumes "partialResponse w = Some r"
    and "response.status r = 206"
    and "match_last_updated (body r) = Some ts"
    and "cachedTimestamp st = Some ts"
    and "cachedGames st = Some cg"
    and "cg \<noteq> []"
    and "parse w cg = Some games"
  shows "smart_check w st = Cached games"
proof -
  from assms(3) have "ts \<noteq> []" by (rule match_last_updated_nonempty)
  with assms show ?thesis by (simp add: smart_check_def)
qed

text \<open>
  Claim C8.  When a cached dataset and a cached timestamp exist (the dataset entry is a
  non-empty string that parses), the range request is answered with status 206, and the
  timestamp extracted from the answer equals the cached one, the loader returns exactly
  what the cached entry holds, issues the range request only (no full fetch), and leaves
  the cache as it was.
\<close>

theorem loadGameDataWithCache_unchanged_timestamp:
  assumes "partialResponse w = Some r"
    and "response.status r = 206"
    and "match_last_updated (body r) = Some ts"
    and "cachedTimestamp st = Some ts"
    and "cachedGames st = Some cg"
    and "cg \<noteq> []"
    and "parse w cg = Some games"
  shows "result (loadGameDataWithCache w st) = Inr games
       \<and> requests (loadGameDataWithCache w st) = [RangeRequest]
       \<and> FullRequest \<notin> set (requests (loadGameDataWithCache w st))
       \<and> store (loadGameDataWithCache w st) = st"
  using smart_check_cached [OF assms] by (simp add: loadGameDataWithCache_def)

theorem loadGameDataWithCache_unchanged_timestamp_witness:
  \<open>match_last_updated (body \<lparr> response.status = 206, body = ''{"last_updated": 1700000000, "ga'' \<rparr>)
     = Some ''1700000000''
   \<and> result (loadGameDataWithCache
        \<lparr> partialResponse = Some \<lparr> response.status = 206, body = ''{"last_updated": 1700000000, "ga'' \<rparr>,
          dataResponse = None, now = 1700000500000, timestampWriteOk = True,
          dataWriteOk = True,
          parse = map_of [(''[{"appid":480}]'', JArr [JObj [(''appid'', JNum 480)]])],
          stringify = case_option [] id \<circ> map_of [],
          numberToString = case_option [] id \<circ> map_of [] \<rparr>
        \<lparr> cachedTimestamp = Some ''1700000000'', cachedGames = Some ''[{"appid":480}]'' \<rparr>)
     = Inr (JArr [JObj [(''appid'', JNum 480)]])
   \<and> requests (loadGameDataWithCache
        \<lparr> partialResponse = Some \<lparr> response.status = 206, body = ''{"last_updated": 1700000000, "ga'' \<rparr>,
          dataResponse = None, now = 1700000500000, timestampWriteOk = True,
          dataWriteOk = True,
          parse = map_of [(''[{"appid":480}]'', JArr [JObj [(''appid'', JNum 480)]])],
          stringify = case_option [] id \<circ> map_of [],
          numberToString = case_option [] id \<circ> map_of [] \<rparr>
        \<lparr> cachedTimestamp = Some ''1700000000'', cachedGames = Some ''[{"appid":480}]'' \<rparr>)
     = [RangeRequest]\<close>
proof -
  let ?r = \<open>\<lparr> response.status = 206, body = ''{"last_updated": 1700000000, "ga'' \<rparr>\<close>
  let ?w = \<open>\<lparr> partialResponse = Some ?r,
          dataResponse = None, now = 1700000500000, timestampWriteOk = True,
          dataWriteOk = True,
          parse = map_of [(''[{"appid":480}]'', JArr [JObj [(''appid'', JNum 480)]])],
          stringify = case_option [] id \<circ> map_of [],
          numberToString = case_option [] id \<circ> map_of [] \<rparr>\<close>
  let ?st = \<open>\<lparr> cachedTimestamp = Some ''1700000000'', cachedGames = Some ''[{"appid":480}]'' \<rparr>\<close>
  have m: "match_last_updated (body ?r) = Some ''1700000000''"
    by code_simp
  have p1: "partialResponse ?w = Some ?r" by simp
  have p2: "response.status ?r = 206" by simp
  have p3: "cachedTimestamp ?st = Some ''1700000000''" by simp
  have p4: \<open>cachedGames ?st = Some ''[{"appid":480}]''\<close> by simp
  have p5: \<open>''[{"appid":480}]'' \<noteq> []\<close> by simp
  have p6: \<open>parse ?w ''[{"appid":480}]'' = Some (JArr [JObj [(''appid'', JNum 480)]])\<close> by simp
  note loadGameDataWithCache_unchanged_timestamp [OF p1 p2 m p3 p4 p5 p6]
  with m show ?thesis by blast
qed


text \<open>
  The cached entry is the games list of the run that wrote it: after a run that fetched
  a payload of the current format and stored it, a second run that sees the same
  timestamp returns that games list, provided \<^verbatim>\<open>JSON.parse\<close> undoes \<^verbatim>\<open>JSON.stringify\<close> on it.
\<close>

lemma cache_written_then_served:
  assumes "smart_check w1 st1 = Proceed d"
    and "payload_of w1 d = Inr data"
    and "wire_shape data = Inr (games, lastUpdated, True)"
    and "truthy lastUpdated"
    and "toStr (numberToString w1) lastUpdated = Inr ts"
    and "timestampWriteOk w1" and "dataWriteOk w1"
    and "partialResponse w2 = Some r"
    and "response.status r = 206"
    and "match_last_updated (body r) = Some ts"
    and "stringify w1 games \<noteq> []"
    and "parse w2 (stringify w1 games) = Some games"
  shows "result (loadGameDataWithCache w1 st1) = Inr games
       \<and> result (loadGameDataWithCache w2 (store (loadGameDataWithCache w1 st1))) = Inr games
       \<and> requests (loadGameDataWithCache w2 (store (loadGameDataWithCache w1 st1))) = [RangeRequest]"
proof -
  let ?st2 = "store (loadGameDataWithCache w1 st1)"
  from assms(1-7) have first: "result (loadGameDataWithCache w1 st1) = Inr games"
    and st2: "?st2 = st1\<lparr> cachedTimestamp := Some ts, cachedGames := Some (stringify w1 games) \<rparr>"
    by (simp_all add: loadGameDataWithCache_def Let_def update_cache_def)
  have ts: "cachedTimestamp ?st2 = Some ts" and cg: "cachedGames ?st2 = Some (stringify w1 games)"
    by (simp_all add: st2)
  from smart_check_cached [OF assms(8) assms(9) assms(10) ts cg assms(11) assms(12)]
  have "smart_check w2 ?st2 = Cached games" .
  then show ?thesis using first by (simp add: loadGameDataWithCache_def)
qed

text \<open>
  A malformed payload makes the shape test throw; the outer \<^verbatim>\<open>catch\<close> then decides between
  the cache and throwing again.
\<close>

lemma wire_shape_malformed:
  assumes "malformed data"
  shows "wire_shape data = Inl (if nullish data then TypeError else FormatError)"
  using assms by (auto simp: malformed_def wire_shape_def js_get_def)

lemma fallback_unusable: "\<not> cache_usable w st \<Longrightarrow> fallback w st e = Inl e"
  by (auto simp: cache_usable_def fallback_def split: option.splits)

lemma fallback_usable:
  assumes "cache_usable w st"
  shows "\<exists>cg. cachedGames st = Some cg
           \<and> fallback w st e = (case parse w cg of None \<Rightarrow> Inl SyntaxError | Some v \<Rightarrow> Inr v)"
  using assms by (auto simp: cache_usable_def fallback_def split: option.splits)

lemma init_from_file_failure:
  "result (loadGameDataWithCache w st) = Inl e \<Longrightarrow>
     init_from_file w st gd = (Thrown e, gd, loadGameDataWithCache w st)"
  by (simp add: init_from_file_def Let_def)

lemma loader_malformed:
  assumes "smart_check w st = Proceed d"
    and "payload_of w d = Inr data"
    and "malformed data"
  shows "result (loadGameDataWithCache w st)
           = fallback w st (if nullish data then TypeError else FormatError)"
    and "store (loadGameDataWithCache w st) = st"
  using assms wire_shape_malformed [OF assms(3)]
  by (simp_all add: loadGameDataWithCache_def Let_def)

text \<open>
  The hub's \<^verbatim>\<open>loadGameData\<close> meets the same payload without failing at all: the person gets
  the zeroed fields.
\<close>

lemma hub_malformed_payload_zeroed:
  assumes "malformed data"
  shows "loadGameData (Inr data) = emptyStats"
  using assms by (auto simp: malformed_def loadGameData_def)

text \<open>
  Claim C9, amended.  Let the payload that was fetched be neither a bare array nor an
  object with a games array.

    \<^item> The viewer's loader leaves the cache untouched.

    \<^item> Without a usable cache (a cached dataset and a cached timestamp, both non-empty,
      the timestamp less than an hour old), the loader fails, with the format error, or
      with a TypeError when the payload is \<^verbatim>\<open>null\<close> or \<^verbatim>\<open>undefined\<close>; \<^verbatim>\<open>init\<close> then ends in
      its error branch with the games collection exactly as it was.

    \<^item> With a usable cache the loader does not fail on the payload: its result is what
      the cached dataset parses to, or a SyntaxError when that does not parse.

    \<^item> Whenever the loader fails, \<^verbatim>\<open>init\<close> ends in its error branch with the games
      collection exactly as it was.

    \<^item> The hub's \<^verbatim>\<open>loadGameData\<close> does not fail on such a payload: the person gets the
      zeroed fields.
\<close>

theorem malformed_payload_fails_without_cache:
  assumes "smart_check w st = Proceed d"
    and "payload_of w d = Inr data"
    and "malformed data"
  shows "store (loadGameDataWithCache w st) = st
       \<and> (\<not> cache_usable w st \<longrightarrow>
            result (loadGameDataWithCache w st)
              = Inl (if nullish data then TypeError else FormatError)
            \<and> init_from_file w st gd
              = (Thrown (if nullish data then TypeError else FormatError), gd,
                 loadGameDataWithCache w st))
       \<and> (cache_usable w st \<longrightarrow>
            (\<exists>cg. cachedGames st = Some cg
               \<and> result (loadGameDataWithCache w st)
                   = (case parse w cg of None \<Rightarrow> Inl SyntaxError | Some v \<Rightarrow> Inr v)))
       \<and> (\<forall>e. result (loadGameDataWithCache w st) = Inl e \<longrightarrow>
              init_from_file w st gd = (Thrown e, gd, loadGameDataWithCache w st))
       \<and> loadGameData (Inr data) = emptyStats"
proof -
  let ?e = "if nullish data then TypeError else FormatError"
  note res = loader_malformed(1) [OF assms] and st = loader_malformed(2) [OF assms]
  have "result (loadGameDataWithCache w st) = Inl ?e
          \<and> init_from_file w st gd = (Thrown ?e, gd, loadGameDataWithCache w st)"
    if "\<not> cache_usable w st"
  proof -
    from fallback_unusable [OF that, of ?e] res
    have "result (loadGameDataWithCache w st) = Inl ?e" by simp
    with init_from_file_failure [OF this] show ?thesis by simp
  qed
  moreover have "\<exists>cg. cachedGames st = Some cg
               \<and> result (loadGameDataWithCache w st)
                   = (case parse w cg of None \<Rightarrow> Inl SyntaxError | Some v \<Rightarrow> Inr v)"
    if "cache_usable w st"
    using fallback_usable [OF that, of ?e] res by simp
  ultimately show ?thesis
    using st init_from_file_failure hub_malformed_payload_zeroed [OF assms(3)] by blast
qed

text \<open>
  Claim C9 as stated fails: the full fetch returns the malformed payload \<^verbatim>\<open>{}\<close> while a
  cache entry written 500 seconds before is there; the loader returns the cached games
  list and \<^verbatim>\<open>init\<close> completes without any failure.
\<close>

theorem malformed_payload_served_from_cache:
  \<open>malformed (JObj [])
   \<and> payload_of
        \<lparr> partialResponse = None,
          dataResponse = Some \<lparr> response.status = 200, body = ''{}'' \<rparr>,
          now = 1700000500000, timestampWriteOk = True, dataWriteOk = True,
          parse = map_of [(''{}'', JObj []), (''[]'', JArr [])],
          stringify = case_option [] id \<circ> map_of [],
          numberToString = case_option [] id \<circ> map_of [] \<rparr> None = Inr (JObj [])
   \<and> result (loadGameDataWithCache
        \<lparr> partialResponse = None,
          dataResponse = Some \<lparr> response.status = 200, body = ''{}'' \<rparr>,
          now = 1700000500000, timestampWriteOk = True, dataWriteOk = True,
          parse = map_of [(''{}'', JObj []), (''[]'', JArr [])],
          stringify = case_option [] id \<circ> map_of [],
          numberToString = case_option [] id \<circ> map_of [] \<rparr>
        \<lparr> cachedTimestamp = Some ''1700000000'', cachedGames = Some ''[]'' \<rparr>)
     = Inr (JArr [])
   \<and> fst (init_from_file
        \<lparr> partialResponse = None,
          dataResponse = Some \<lparr> response.status = 200, body = ''{}'' \<rparr>,
          now = 1700000500000, timestampWriteOk = True, dataWriteOk = True,
          parse = map_of [(''{}'', JObj []), (''[]'', JArr [])],
          stringify = case_option [] id \<circ> map_of [],
          numberToString = case_option [] id \<circ> map_of [] \<rparr>
        \<lparr> cachedTimestamp = Some ''1700000000'', cachedGames = Some ''[]'' \<rparr> [])
     = Done\<close>
proof -
  let ?w = "\<lparr> partialResponse = None,
          dataResponse = Some \<lparr> response.status = 200, body = ''{}'' \<rparr>,
          now = 1700000500000, timestampWriteOk = True, dataWriteOk = True,
          parse = map_of [(''{}'', JObj []), (''[]'', JArr [])],
          stringify = case_option [] id \<circ> map_of [],
          numberToString = case_option [] id \<circ> map_of [] \<rparr>"
  let ?st = "\<lparr> cachedTimestamp = Some ''1700000000'', cachedGames = Some ''[]'' \<rparr>"
  have pi: "parseInt ''1700000000'' = Some 1700000000"
    by (simp add: parseInt_def Let_def is_space_def is_digit_def digits_val_def digit_val_def)
  have fresh: "cache_fresh ?w ''1700000000''"
    by (simp add: cache_fresh_def pi CACHE_MAX_AGE_def)
  have h1: "smart_check ?w ?st = Proceed None" by (simp add: smart_check_def)
  have h2: "payload_of ?w None = Inr (JObj [])" by (simp add: payload_of_def full_fetch_def ok_def)
  have h3: "malformed (JObj [])" by (simp add: malformed_def)
  have ws: "wire_shape (JObj []) = Inl FormatError" by (simp add: wire_shape_def js_get_def)
  have fb: "fallback ?w ?st FormatError = Inr (JArr [])"
    by (simp add: fallback_def cache_fresh_def pi CACHE_MAX_AGE_def)
  have l: "result (loadGameDataWithCache ?w ?st) = Inr (JArr [])"
    by (simp add: loadGameDataWithCache_def Let_def smart_check_def payload_of_def full_fetch_def
        ok_def ws fallback_def cache_fresh_def pi CACHE_MAX_AGE_def)
  have "fst (init_from_file ?w ?st []) = Done"
    by (simp add: init_from_file_def Let_def loadGameDataWithCache_def smart_check_def
        payload_of_def full_fetch_def ok_def ws fallback_def cache_fresh_def pi CACHE_MAX_AGE_def)
  with h2 h3 l show ?thesis by simp
qed

text \<open>The same malformed payload without a cache, and a collection that holds a game.\<close>

theorem malformed_payload_fails_without_cache_witness:
  \<open>smart_check
      \<lparr> partialResponse = None,
        dataResponse = Some \<lparr> response.status = 200, body = ''{}'' \<rparr>,
        now = 1700000500000, timestampWriteOk = True, dataWriteOk = True,
        parse = map_of [(''{}'', JObj []), (''[]'', JArr [])],
        stringify = case_option [] id \<circ> map_of [],
          numberToString = case_option [] id \<circ> map_of [] \<rparr>
      \<lparr> cachedTimestamp = None, cachedGames = None \<rparr> = Proceed None
   \<and> malformed (JObj [])
   \<and> init_from_file
        \<lparr> partialResponse = None,
          dataResponse = Some \<lparr> response.status = 200, body = ''{}'' \<rparr>,
          now = 1700000500000, timestampWriteOk = True, dataWriteOk = True,
          parse = map_of [(''{}'', JObj []), (''[]'', JArr [])],
          stringify = case_option [] id \<circ> map_of [],
          numberToString = case_option [] id \<circ> map_of [] \<rparr>
        \<lparr> cachedTimestamp = None, cachedGames = None \<rparr>
        [(''10'', \<lparr> appId = ''10'', name = JStr ''Game 10'', icon = JStr [],
                   achievements = [], usesDb = JBool False, platform = JNull \<rparr>)]
     = (Thrown FormatError,
        [(''10'', \<lparr> appId = ''10'', name = JStr ''Game 10'', icon = JStr [],
                   achievements = [], usesDb = JBool False, platform = JNull \<rparr>)],
        \<lparr> result = Inl FormatError,
          store = \<lparr> cachedTimestamp = None, cachedGames = None \<rparr>,
          requests = [RangeRequest, FullRequest] \<rparr>)
   \<and> loadGameData (Inr (JObj [])) = emptyStats\<close>
proof -
  let ?w = "\<lparr> partialResponse = None,
          dataResponse = Some \<lparr> response.status = 200, body = ''{}'' \<rparr>,
          now = 1700000500000, timestampWriteOk = True, dataWriteOk = True,
          parse = map_of [(''{}'', JObj []), (''[]'', JArr [])],
          stringify = case_option [] id \<circ> map_of [],
          numberToString = case_option [] id \<circ> map_of [] \<rparr>"
  let ?st = "\<lparr> cachedTimestamp = None, cachedGames = None \<rparr>"
  let ?gd = "[(''10'', \<lparr> appId = ''10'', name = JStr ''Game 10'', icon = JStr [],
                   achievements = [], usesDb = JBool False, platform = JNull \<rparr>)]"
  have h1: "smart_check ?w ?st = Proceed None" by (simp add: smart_check_def)
  have h2: "payload_of ?w None = Inr (JObj [])" by (simp add: payload_of_def full_fetch_def ok_def)
  have h3: "malformed (JObj [])" by (simp add: malformed_def)
  have h4: "\<not> cache_usable ?w ?st" by (simp add: cache_usable_def)
  have l: "loadGameDataWithCache ?w ?st
             = \<lparr> result = Inl FormatError, store = ?st, requests = [RangeRequest, FullRequest] \<rparr>"
    by (simp add: loadGameDataWithCache_def Let_def smart_check_def payload_of_def full_fetch_def ok_def
        wire_shape_def js_get_def fallback_def)
  from malformed_payload_fails_without_cache [OF h1 h2 h3, of ?gd] h4
  have "init_from_file ?w ?st ?gd = (Thrown FormatError, ?gd, loadGameDataWithCache ?w ?st)"
    and "loadGameData (Inr (JObj [])) = emptyStats"
    by simp_all
  with h1 h3 l show ?thesis by simp
qed

section \<open>Properties of the comparison\<close>

text \<open>
  Every record of a finished comparison was pushed by the loop body, for an achievement of
  the reference game and the entry read for it from the other user's data.
\<close>

lemma compare_loop_entries:
  assumes "compare_loop oa ob as acc = Inr cs"
    and "set as \<subseteq> A"
    and "\<forall>r \<in> set acc. \<exists>a ownAch. a \<in> A \<and> js_get oa (apiname a) = Inr ownAch \<and> r = comparison_entry a ownAch"
  shows "\<forall>r \<in> set cs. \<exists>a ownAch. a \<in> A \<and> js_get oa (apiname a) = Inr ownAch \<and> r = comparison_entry a ownAch"
  using assms
proof (induction as arbitrary: acc)
  case Nil
  then show ?case by simp
next
  case (Cons a as)
  from Cons.prems(2) have sub: "set as \<subseteq> A" and aA: "a \<in> A" by auto
  show ?case
  proof (cases "js_includes ob (apiname a)")
    case (Inl e)
    with Cons.prems show ?thesis by simp
  next
    case (Inr b)
    show ?thesis
    proof (cases b)
      case True
      with Inr Cons.prems(1) have "compare_loop oa ob as acc = Inr cs" by simp
      from Cons.IH [OF this sub Cons.prems(3)] show ?thesis .
    next
      case False
      show ?thesis
      proof (cases "js_get oa (apiname a)")
        case (Inl e)
        with Inr False Cons.prems show ?thesis by simp
      next
        case own: (Inr ownAch)
        from Inr False own Cons.prems(1)
        have run: "compare_loop oa ob as (acc @ [comparison_entry a ownAch]) = Inr cs" by simp
        have "\<forall>r \<in> set (acc @ [comparison_entry a ownAch]).
                \<exists>a ownAch. a \<in> A \<and> js_get oa (apiname a) = Inr ownAch \<and> r = comparison_entry a ownAch"
          using Cons.prems(3) own aA by auto
        from Cons.IH [OF run sub this] show ?thesis .
      qed
    qed
  qed
qed

lemma comparison_entry_fields:
  "apiname (comparison_entry a ownAch) = apiname a"
  "unlocked (comparison_entry a ownAch) = unlocked a"
  "status (comparison_entry a ownAch) = status_of (is_true_or_one (unlocked a)) (has_earned ownAch)"
  by (simp_all add: comparison_entry_def Let_def)

lemma status_of_cases:
  "status_of t y = (if t then (if y then ''both-unlocked'' else ''they-only'')
                    else (if y then ''you-only'' else ''both-locked''))"
  by (simp add: status_of_def)

lemma compareAchievements_entries:
  assumes "compareAchievements theirGame ownData = Inr res"
    and "r \<in> set (comparison res)"
  shows "\<exists>od a ownAch. ownData = Some od \<and> a \<in> set (achievements theirGame)
           \<and> js_get (achievementsData od) (apiname a) = Inr ownAch
           \<and> r = comparison_entry a ownAch"
proof (cases ownData)
  case None
  with assms show ?thesis by (auto simp: compareAchievements_def)
next
  case (Some od)
  with assms(1) obtain cs where
    run: "compare_loop (achievementsData od) (blacklist od) (achievements theirGame) [] = Inr cs"
    and res: "res = \<lparr> hasData = True, comparison = cs \<rparr>"
    by (auto simp: compareAchievements_def split: sum.splits)
  have "\<forall>r \<in> set cs. \<exists>a ownAch. a \<in> set (achievements theirGame)
          \<and> js_get (achievementsData od) (apiname a) = Inr ownAch \<and> r = comparison_entry a ownAch"
    by (rule compare_loop_entries [OF run]) simp_all
  with assms(2) res Some show ?thesis by auto
qed

text \<open>
  Claim C2.  Every comparison record that \<^verbatim>\<open>compareAchievements\<close> produces carries the
  status fixed by the pair (theyHave, youHave): both true gives \<^verbatim>\<open>both-unlocked\<close>, only
  theyHave gives \<^verbatim>\<open>they-only\<close>, only youHave gives \<^verbatim>\<open>you-only\<close>, neither gives
  \<^verbatim>\<open>both-locked\<close>; no record has any other status.  Here theyHave is read from the
  reference achievement's \<^verbatim>\<open>unlocked\<close> field (which the record copies) and youHave from
  the other user's entry under the same key.
\<close>

theorem compareAchievements_status:
  assumes "compareAchievements theirGame ownData = Inr res"
    and "r \<in> set (comparison res)"
  shows "\<exists>od a ownAch. ownData = Some od \<and> a \<in> set (achievements theirGame)
           \<and> apiname r = apiname a \<and> unlocked r = unlocked a
           \<and> js_get (achievementsData od) (apiname a) = Inr ownAch
           \<and> (let theyHave = is_true_or_one (unlocked a); youHave = has_earned ownAch
              in (theyHave \<and> youHave \<longrightarrow> status r = ''both-unlocked'')
               \<and> (theyHave \<and> \<not> youHave \<longrightarrow> status r = ''they-only'')
               \<and> (\<not> theyHave \<and> youHave \<longrightarrow> status r = ''you-only'')
               \<and> (\<not> theyHave \<and> \<not> youHave \<longrightarrow> status r = ''both-locked''))
           \<and> status r \<in> {''both-unlocked'', ''they-only'', ''you-only'', ''both-locked''}"
proof -
  from compareAchievements_entries [OF assms]
  obtain od a ownAch where od: "ownData = Some od" and a: "a \<in> set (achievements theirGame)"
    and own: "js_get (achievementsData od) (apiname a) = Inr ownAch"
    and r: "r = comparison_entry a ownAch" by blast
  have "status r \<in> {''both-unlocked'', ''they-only'', ''you-only'', ''both-locked''}"
    by (simp add: r comparison_entry_fields status_of_cases)
  moreover have "let theyHave = is_true_or_one (unlocked a); youHave = has_earned ownAch
              in (theyHave \<and> youHave \<longrightarrow> status r = ''both-unlocked'')
               \<and> (theyHave \<and> \<not> youHave \<longrightarrow> status r = ''they-only'')
               \<and> (\<not> theyHave \<and> youHave \<longrightarrow> status r = ''you-only'')
               \<and> (\<not> theyHave \<and> \<not> youHave \<longrightarrow> status r = ''both-locked'')"
    by (simp add: r comparison_entry_fields status_of_cases Let_def)
  ultimately show ?thesis using od a own r
    by (intro exI [of _ od] exI [of _ a] exI [of _ ownAch]) (simp add: comparison_entry_fields)
qed

text \<open>
  The fourth end-to-end scenario of the specification: \<^verbatim>\<open>X\<close> is unlocked in the reference
  game, the other user has no entry for it.
\<close>

theorem compareAchievements_status_witness:
  "compareAchievements
     \<lparr> appId = ''480'', name = JStr ''Game 480'', icon = JStr [],
       achievements = [\<lparr> apiname = ''X'', name = JStr ''X'', description = JStr [],
                         hidden = JBool False, icon = JStr [], icongray = JStr [],
                         unlocked = JBool True, unlocktime = JNum 1000, rarity = JNull,
                         group = JNull \<rparr>],
       usesDb = JBool False, platform = JNull \<rparr>
     (Some \<lparr> achievementsData = JObj [], gameInfo = JNull, blacklist = JArr [],
             username = ''visitor'' \<rparr>)
   = Inr \<lparr> hasData = True,
           comparison = [\<lparr> apiname = ''X'', name = JStr ''X'', description = JStr [],
                           hidden = JBool False, icon = JStr [], icongray = JStr [],
                           unlocked = JBool True, unlocktime = JNum 1000, rarity = JNull,
                           group = JNull, status = ''they-only'', yourUnlockTime = JNum 0,
                           theirUnlockTime = JNum 1000 \<rparr>] \<rparr>
   \<and> status \<lparr> apiname = ''X'', name = JStr ''X'', description = JStr [],
                           hidden = JBool False, icon = JStr [], icongray = JStr [],
                           unlocked = JBool True, unlocktime = JNum 1000, rarity = JNull,
                           group = JNull, status = ''they-only'', yourUnlockTime = JNum 0,
                           theirUnlockTime = JNum 1000 \<rparr>
       \<in> {''both-unlocked'', ''they-only'', ''you-only'', ''both-locked''}"
proof -
  let ?r = "\<lparr> apiname = ''X'', name = JStr ''X'', description = JStr [],
                           hidden = JBool False, icon = JStr [], icongray = JStr [],
                           unlocked = JBool True, unlocktime = JNum 1000, rarity = JNull,
                           group = JNull, status = ''they-only'', yourUnlockTime = JNum 0,
                           theirUnlockTime = JNum 1000 \<rparr>"
  let ?res = "\<lparr> hasData = True, comparison = [?r] \<rparr>"
  let ?g = "\<lparr> appId = ''480'', name = JStr ''Game 480'', icon = JStr [],
       achievements = [\<lparr> apiname = ''X'', name = JStr ''X'', description = JStr [],
                         hidden = JBool False, icon = JStr [], icongray = JStr [],
                         unlocked = JBool True, unlocktime = JNum 1000, rarity = JNull,
                         group = JNull \<rparr>],
       usesDb = JBool False, platform = JNull \<rparr>"
  let ?od = "\<lparr> achievementsData = JObj [], gameInfo = JNull, blacklist = JArr [],
             username = ''visitor'' \<rparr>"
  have run: "compareAchievements ?g (Some ?od) = Inr ?res"
    by (simp add: compareAchievements_def comparison_entry_def js_get_def has_earned_def
        is_true_or_one_def status_of_def yourUnlockTime_of_def js_get_opt_def js_or_def)
  have mem: "?r \<in> set (comparison ?res)" by simp
  from compareAchievements_status [OF run mem] run show ?thesis by blast
qed

lemma status_partition:
  assumes "\<forall>r \<in> set cs. status r \<in> {''both-unlocked'', ''they-only'', ''you-only'', ''both-locked''}"
  shows "length (filter (\<lambda>a. status a = ''both-unlocked'') cs)
       + length (filter (\<lambda>a. status a = ''you-only'') cs)
       + length (filter (\<lambda>a. status a = ''they-only'') cs)
       + length (filter (\<lambda>a. status a = ''both-locked'') cs) = length cs"
  using assms
proof (induction cs)
  case Nil
  then show ?case by simp
next
  case (Cons c cs)
  from Cons.prems have "status c \<in> {''both-unlocked'', ''they-only'', ''you-only'', ''both-locked''}"
    by simp
  then consider "status c = ''both-unlocked''" | "status c = ''they-only''"
    | "status c = ''you-only''" | "status c = ''both-locked''" by auto
  then show ?case
  proof cases
    case 1 with Cons show ?thesis by simp
  next
    case 2 with Cons show ?thesis by simp
  next
    case 3 with Cons show ?thesis by simp
  next
    case 4 with Cons show ?thesis by simp
  qed
qed

text \<open>
  Claim C3.  On every comparison list that \<^verbatim>\<open>compareAchievements\<close> produces, the four
  counts of \<^verbatim>\<open>getComparisonStats\<close> add up to \<^verbatim>\<open>total\<close>, which is the length of the list;
  \<^verbatim>\<open>yourTotal\<close> is \<^verbatim>\<open>bothUnlocked + youOnly\<close> and \<^verbatim>\<open>theirTotal\<close> is
  \<^verbatim>\<open>bothUnlocked + theyOnly\<close>.
\<close>

theorem getComparisonStats_partition:
  assumes "compareAchievements theirGame ownData = Inr res"
  shows "bothUnlocked (getComparisonStats (comparison res))
           + youOnly (getComparisonStats (comparison res))
           + theyOnly (getComparisonStats (comparison res))
           + bothLocked (getComparisonStats (comparison res))
         = total (getComparisonStats (comparison res))
       \<and> total (getComparisonStats (comparison res)) = length (comparison res)
       \<and> yourTotal (getComparisonStats (comparison res))
         = bothUnlocked (getComparisonStats (comparison res))
           + youOnly (getComparisonStats (comparison res))
       \<and> theirTotal (getComparisonStats (comparison res))
         = bothUnlocked (getComparisonStats (comparison res))
           + theyOnly (getComparisonStats (comparison res))"
proof -
  have "\<forall>r \<in> set (comparison res).
          status r \<in> {''both-unlocked'', ''they-only'', ''you-only'', ''both-locked''}"
  proof
    fix r assume "r \<in> set (comparison res)"
    from compareAchievements_entries [OF assms this]
    obtain a ownAch where "r = comparison_entry a ownAch" by blast
    then show "status r \<in> {''both-unlocked'', ''they-only'', ''you-only'', ''both-locked''}"
      by (simp add: comparison_entry_fields status_of_cases)
  qed
  from status_partition [OF this] show ?thesis
    by (simp add: getComparisonStats_def Let_def)
qed


theorem getComparisonStats_partition_witness:
  "compareAchievements
     \<lparr> appId = ''480'', name = JStr ''Game 480'', icon = JStr [],
       achievements = [\<lparr> apiname = ''X'', name = JStr ''X'', description = JStr [],
                         hidden = JBool False, icon = JStr [], icongray = JStr [],
                         unlocked = JBool True, unlocktime = JNum 1000, rarity = JNull,
                         group = JNull \<rparr>,
                       \<lparr> apiname = ''Y'', name = JStr ''Y'', description = JStr [],
                         hidden = JBool False, icon = JStr [], icongray = JStr [],
                         unlocked = JBool False, unlocktime = JNum 0, rarity = JNull,
                         group = JNull \<rparr>],
       usesDb = JBool False, platform = JNull \<rparr>
     (Some \<lparr> achievementsData = JObj [(''Y'', JObj [(''earned'', JBool True)])],
             gameInfo = JNull, blacklist = JArr [], username = ''visitor'' \<rparr>)
   = Inr \<lparr> hasData = True,
           comparison = [\<lparr> apiname = ''X'', name = JStr ''X'', description = JStr [],
                           hidden = JBool False, icon = JStr [], icongray = JStr [],
                           unlocked = JBool True, unlocktime = JNum 1000, rarity = JNull,
                           group = JNull, status = ''they-only'', yourUnlockTime = JNum 0,
                           theirUnlockTime = JNum 1000 \<rparr>,
                         \<lparr> apiname = ''Y'', name = JStr ''Y'', description = JStr [],
                           hidden = JBool False, icon = JStr [], icongray = JStr [],
                           unlocked = JBool False, unlocktime = JNum 0, rarity = JNull,
                           group = JNull, status = ''you-only'', yourUnlockTime = JNum 0,
                           theirUnlockTime = JNum 0 \<rparr>] \<rparr>
   \<and> total (getComparisonStats
        [\<lparr> apiname = ''X'', name = JStr ''X'', description = JStr [],
                           hidden = JBool False, icon = JStr [], icongray = JStr [],
                           unlocked = JBool True, unlocktime = JNum 1000, rarity = JNull,
                           group = JNull, status = ''they-only'', yourUnlockTime = JNum 0,
                           theirUnlockTime = JNum 1000 \<rparr>,
                         \<lparr> apiname = ''Y'', name = JStr ''Y'', description = JStr [],
                           hidden = JBool False, icon = JStr [], icongray = JStr [],
                           unlocked = JBool False, unlocktime = JNum 0, rarity = JNull,
                           group = JNull, status = ''you-only'', yourUnlockTime = JNum 0,
                           theirUnlockTime = JNum 0 \<rparr>]) = 2"
proof -
  let ?cs = "[\<lparr> apiname = ''X'', name = JStr ''X'', description = JStr [],
                           hidden = JBool False, icon = JStr [], icongray = JStr [],
                           unlocked = JBool True, unlocktime = JNum 1000, rarity = JNull,
                           group = JNull, status = ''they-only'', yourUnlockTime = JNum 0,
                           theirUnlockTime = JNum 1000 \<rparr>,
                         \<lparr> apiname = ''Y'', name = JStr ''Y'', description = JStr [],
                           hidden = JBool False, icon = JStr [], icongray = JStr [],
                           unlocked = JBool False, unlocktime = JNum 0, rarity = JNull,
                           group = JNull, status = ''you-only'', yourUnlockTime = JNum 0,
                           theirUnlockTime = JNum 0 \<rparr>]"
  let ?g = "\<lparr> appId = ''480'', name = JStr ''Game 480'', icon = JStr [],
       achievements = [\<lparr> apiname = ''X'', name = JStr ''X'', description = JStr [],
                         hidden = JBool False, icon = JStr [], icongray = JStr [],
                         unlocked = JBool True, unlocktime = JNum 1000, rarity = JNull,
                         group = JNull \<rparr>,
                       \<lparr> apiname = ''Y'', name = JStr ''Y'', description = JStr [],
                         hidden = JBool False, icon = JStr [], icongray = JStr [],
                         unlocked = JBool False, unlocktime = JNum 0, rarity = JNull,
                         group = JNull \<rparr>],
       usesDb = JBool False, platform = JNull \<rparr>"
  let ?od = "\<lparr> achievementsData = JObj [(''Y'', JObj [(''earned'', JBool True)])],
             gameInfo = JNull, blacklist = JArr [], username = ''visitor'' \<rparr>"
  have run: "compareAchievements ?g (Some ?od) = Inr \<lparr> hasData = True, comparison = ?cs \<rparr>"
    by (simp add: compareAchievements_def comparison_entry_def js_get_def has_earned_def
        is_true_or_one_def status_of_def yourUnlockTime_of_def js_get_opt_def js_or_def)
  from getComparisonStats_partition [OF run] run show ?thesis by simp
qed


end
